theory Spec2Isabelle
  imports Main
begin

section \<open>Values that cross the HTTP boundary\<close>

text \<open>
  A property of a parsed JSON request body (\<open>req.body.x\<close>) is absent, \<open>null\<close>, or
  carries a value. The handlers of \<open>routes/auth.js\<close> and \<open>routes/books.js\<close> are
  modelled for bodies whose \<open>email\<close>, \<open>password\<close>, \<open>title\<close>, \<open>author\<close>, \<open>genre\<close>,
  \<open>description\<close> and \<open>comment\<close> are strings (or absent, or null) and whose \<open>rating\<close>
  is an integer (or absent, or null).
\<close>

datatype 'a property = Undefined | Null | Val 'a

text \<open>node-postgres sends both \<open>undefined\<close> and \<open>null\<close> as SQL NULL.\<close>

fun to_sql :: "'a property \<Rightarrow> 'a option" where
  "to_sql Undefined = None"
| "to_sql Null = None"
| "to_sql (Val v) = Some v"

text \<open>JavaScript truthiness: \<open>!x\<close> for a string-valued and for a number-valued property.\<close>

fun falsy_str :: "string property \<Rightarrow> bool" where
  "falsy_str Undefined = True"
| "falsy_str Null = True"
| "falsy_str (Val s) = (s = [])"

fun falsy_num :: "int property \<Rightarrow> bool" where
  "falsy_num Undefined = True"
| "falsy_num Null = True"
| "falsy_num (Val n) = (n = 0)"

text \<open>
  \<open>x < k\<close> and \<open>x > k\<close> on a number-valued property: \<open>undefined\<close> becomes NaN (every
  comparison false), \<open>null\<close> becomes 0.
\<close>

fun js_lt :: "int property \<Rightarrow> int \<Rightarrow> bool" where
  "js_lt Undefined k = False"
| "js_lt Null k = (0 < k)"
| "js_lt (Val n) k = (n < k)"

fun js_gt :: "int property \<Rightarrow> int \<Rightarrow> bool" where
  "js_gt Undefined k = False"
| "js_gt Null k = (0 > k)"
| "js_gt (Val n) k = (n > k)"

text \<open>\<open>x || null\<close> as a query parameter: a falsy string is sent as NULL.\<close>

definition or_null :: "string property \<Rightarrow> string option" where
  "or_null x = (if falsy_str x then None else to_sql x)"

text \<open>
  A route parameter \<open>req.params.id\<close> as PostgreSQL reads it where an integer is
  expected: the integer it denotes, or text that is not input for the integer type
  (no number, or one out of the type's range; the statement is then rejected).
\<close>

datatype id_param = Int_id int | Not_an_integer

record auth_body =
  email :: "string property"
  password :: "string property"

record book_body =
  title :: "string property"
  author :: "string property"
  genre :: "string property"
  description :: "string property"

record review_body =
  rating :: "int property"
  comment :: "string property"

section \<open>The libraries: bcryptjs and jsonwebtoken\<close>

text \<open>
  Both libraries are modelled symbolically. A bcrypt hash string records the cost, the
  salt and the bytes of the password that bcrypt reads (the first 72); the salt that
  \<open>bcrypt.hash(password, 10)\<close> draws at random is an argument. Both functions reject
  an argument that is not a string.
\<close>

datatype bcrypt_string = Bcrypt nat string string

datatype lib_error =
    Illegal_arguments
  | Secret_must_have_a_value
  | Jwt_malformed
  | Invalid_signature
  | Jwt_not_active
  | Jwt_expired
  | Invalid_claim_value

definition bcrypt_hash :: "string property \<Rightarrow> nat \<Rightarrow> string \<Rightarrow> lib_error + bcrypt_string" where
  "bcrypt_hash s rounds salt =
     (case s of
        Val pw \<Rightarrow> Inr (Bcrypt rounds salt (take 72 pw))
      | _ \<Rightarrow> Inl Illegal_arguments)"

definition bcrypt_compare :: "string property \<Rightarrow> bcrypt_string \<Rightarrow> lib_error + bool" where
  "bcrypt_compare s hash =
     (case s of
        Val pw \<Rightarrow> (case hash of Bcrypt rounds salt digest \<Rightarrow> Inr (take 72 pw = digest))
      | _ \<Rightarrow> Inl Illegal_arguments)"

text \<open>
  A signed token is its payload (the claims, in the order of the JSON object) and the
  key of its HMAC signature. A cookie value is such a token or any other string. The
  clock is in seconds, as \<open>Math.floor(Date.now() / 1000)\<close>. The secret is
  \<open>process.env.JWT_SECRET\<close>; the empty string stands for a variable that is unset or
  empty, which both libraries' calls refuse.
\<close>

datatype claim = CStr string | CNum int | CNull

record jwt =
  claims :: "(string \<times> claim) list"
  signed_with :: string

datatype cookie_value = Not_a_jwt string | Jwt jwt

text \<open>\<open>JSON.stringify\<close> of the payload object drops the properties that are undefined.\<close>

definition stringify :: "(string \<times> claim option) list \<Rightarrow> (string \<times> claim) list" where
  "stringify obj = List.map_filter (\<lambda>(k, v). map_option (Pair k) v) obj"

text \<open>\<open>jwt.sign(payload, secret, { expiresIn })\<close>, with \<open>expiresIn\<close> in seconds.\<close>

definition jwt_sign ::
  "(string \<times> claim option) list \<Rightarrow> string \<Rightarrow> int \<Rightarrow> int \<Rightarrow> lib_error + jwt" where
  "jwt_sign payload secret expiresIn now =
     (if secret = [] then Inl Secret_must_have_a_value
      else Inr \<lparr>claims = stringify payload @
                          [(''iat'', CNum now), (''exp'', CNum (now + expiresIn))],
                signed_with = secret\<rparr>)"

text \<open>
  \<open>jwt.verify(token, secret)\<close>: the string must be a token, the signature must be
  under the secret, and the \<open>nbf\<close> and \<open>exp\<close> claims, where present, must be numbers
  with \<open>nbf \<le> now < exp\<close>. The result is the payload.
\<close>

definition check_exp :: "(string \<times> claim) list \<Rightarrow> int \<Rightarrow> lib_error + (string \<times> claim) list" where
  "check_exp payload now =
     (case map_of payload ''exp'' of
        Some (CNum e) \<Rightarrow> if now \<ge> e then Inl Jwt_expired else Inr payload
      | Some _ \<Rightarrow> Inl Invalid_claim_value
      | None \<Rightarrow> Inr payload)"

definition jwt_verify ::
  "cookie_value \<Rightarrow> string \<Rightarrow> int \<Rightarrow> lib_error + (string \<times> claim) list" where
  "jwt_verify token secret now =
     (case token of
        Not_a_jwt s \<Rightarrow> Inl Jwt_malformed
      | Jwt t \<Rightarrow>
          if secret = [] then Inl Secret_must_have_a_value
          else if signed_with t \<noteq> secret then Inl Invalid_signature
          else (case map_of (claims t) ''nbf'' of
                  Some (CNum n) \<Rightarrow>
                    if n > now then Inl Jwt_not_active else check_exp (claims t) now
                | Some _ \<Rightarrow> Inl Invalid_claim_value
                | None \<Rightarrow> check_exp (claims t) now))"

section \<open>The relational store\<close>

text \<open>
  The tables are those of the schema the README gives: \<open>users(id, email varchar(255)
  unique not null, password varchar(255) not null, created_at)\<close>, \<open>books(id, title
  varchar(255) not null, author varchar(255) not null, genre varchar(100), description
  text, created_at)\<close> and \<open>reviews(id, book_id references books, user_id references
  users, rating check 1..5, comment text, created_at)\<close>. A nullable column is an
  \<open>option\<close>. The users table is written by signup only, so a stored password is a
  bcrypt hash (60 characters, within its column). The ids come from the tables'
  sequences. A string of the model has one \<open>char\<close> for each character.
\<close>

record user_row =
  u_id :: int
  u_email :: string
  u_password :: bcrypt_string
  u_created_at :: int

record book_row =
  b_id :: int
  b_title :: string
  b_author :: string
  b_genre :: "string option"
  b_description :: "string option"
  b_created_at :: int

record review_row =
  r_id :: int
  r_book_id :: "int option"
  r_user_id :: "int option"
  r_rating :: "int option"
  r_comment :: "string option"
  r_created_at :: int

record db =
  users :: "user_row list"
  books :: "book_row list"
  reviews :: "review_row list"
  users_id_seq :: int
  books_id_seq :: int
  reviews_id_seq :: int

datatype db_error =
    Not_null_violation
  | Unique_violation
  | Check_violation
  | Foreign_key_violation
  | Invalid_text_representation
  | String_data_right_truncation

text \<open>
  Storing a string in a \<open>varchar(n)\<close> column: a string of at most \<open>n\<close> characters is
  stored as it is; a longer one is rejected, unless all the characters beyond the
  \<open>n\<close>-th are spaces, in which case it is cut to \<open>n\<close> characters.
\<close>

definition varchar :: "nat \<Rightarrow> string \<Rightarrow> db_error + string" where
  "varchar n s =
     (if length s \<le> n then Inr s
      else if list_all (\<lambda>c. c = CHR '' '') (drop n s) then Inr (take n s)
      else Inl String_data_right_truncation)"

definition varchar_or_null :: "nat \<Rightarrow> string option \<Rightarrow> db_error + string option" where
  "varchar_or_null n p =
     (case p of
        None \<Rightarrow> Inr None
      | Some s \<Rightarrow> (case varchar n s of Inl err \<Rightarrow> Inl err | Inr v \<Rightarrow> Inr (Some v)))"

text \<open>
  One function for each statement that \<open>db.query\<close> is called with by the handlers
  modelled below. A comparison with NULL selects no row. A constraint is checked where
  the parameters of the statement can violate it; a rejected INSERT has already drawn
  its id from the sequence.
\<close>

text \<open>\<open>SELECT * FROM users WHERE email = $1\<close>\<close>

definition select_users_where_email :: "string option \<Rightarrow> db \<Rightarrow> user_row list" where
  "select_users_where_email p1 d =
     (case p1 of
        None \<Rightarrow> []
      | Some e \<Rightarrow> filter (\<lambda>u. u_email u = e) (users d))"

text \<open>\<open>INSERT INTO users (email, password) VALUES ($1, $2)\<close>\<close>

definition insert_into_users ::
  "string option \<Rightarrow> bcrypt_string \<Rightarrow> int \<Rightarrow> db \<Rightarrow> (db_error + unit) \<times> db" where
  "insert_into_users p1 p2 now d =
     (let d1 = d\<lparr>users_id_seq := users_id_seq d + 1\<rparr> in
      case p1 of
        None \<Rightarrow> (Inl Not_null_violation, d1)
      | Some text \<Rightarrow>
          (case varchar 255 text of
             Inl err \<Rightarrow> (Inl err, d1)
           | Inr e \<Rightarrow>
               if e \<in> set (map u_email (users d)) then (Inl Unique_violation, d1)
               else (Inr (),
                     d1\<lparr>users := users d @
                       [\<lparr>u_id = users_id_seq d, u_email = e, u_password = p2,
                         u_created_at = now\<rparr>]\<rparr>)))"

text \<open>
  \<open>INSERT INTO books (title, author, genre, description) VALUES ($1, $2, $3, $4)
  RETURNING *\<close>
\<close>

definition insert_into_books ::
  "string option \<Rightarrow> string option \<Rightarrow> string option \<Rightarrow> string option \<Rightarrow> int \<Rightarrow> db
     \<Rightarrow> (db_error + book_row list) \<times> db" where
  "insert_into_books p1 p2 p3 p4 now d =
     (let d1 = d\<lparr>books_id_seq := books_id_seq d + 1\<rparr> in
      case (p1, p2) of
        (Some text1, Some text2) \<Rightarrow>
          (case varchar 255 text1 of
             Inl err \<Rightarrow> (Inl err, d1)
           | Inr t \<Rightarrow>
               (case varchar 255 text2 of
                  Inl err \<Rightarrow> (Inl err, d1)
                | Inr a \<Rightarrow>
                    (case varchar_or_null 100 p3 of
                       Inl err \<Rightarrow> (Inl err, d1)
                     | Inr g \<Rightarrow>
                         (let row = \<lparr>b_id = books_id_seq d, b_title = t, b_author = a,
                                      b_genre = g, b_description = p4, b_created_at = now\<rparr>
                          in (Inr [row], d1\<lparr>books := books d @ [row]\<rparr>)))))
      | _ \<Rightarrow> (Inl Not_null_violation, d1))"

text \<open>\<open>SELECT id FROM books WHERE id = $1\<close>\<close>

definition select_books_where_id :: "id_param \<Rightarrow> db \<Rightarrow> db_error + book_row list" where
  "select_books_where_id p1 d =
     (case p1 of
        Not_an_integer \<Rightarrow> Inl Invalid_text_representation
      | Int_id i \<Rightarrow> Inr (filter (\<lambda>b. b_id b = i) (books d)))"

text \<open>\<open>SELECT * FROM reviews WHERE book_id = $1 AND user_id = $2\<close>\<close>

definition select_reviews_where_book_user ::
  "id_param \<Rightarrow> int option \<Rightarrow> db \<Rightarrow> db_error + review_row list" where
  "select_reviews_where_book_user p1 p2 d =
     (case p1 of
        Not_an_integer \<Rightarrow> Inl Invalid_text_representation
      | Int_id b \<Rightarrow>
          (case p2 of
             None \<Rightarrow> Inr []
           | Some u \<Rightarrow>
               Inr (filter (\<lambda>r. r_book_id r = Some b \<and> r_user_id r = Some u) (reviews d))))"

text \<open>
  \<open>INSERT INTO reviews (book_id, user_id, rating, comment) VALUES ($1, $2, $3, $4)
  RETURNING *\<close>
\<close>

definition insert_into_reviews ::
  "id_param \<Rightarrow> int option \<Rightarrow> int option \<Rightarrow> string option \<Rightarrow> int \<Rightarrow> db
     \<Rightarrow> (db_error + review_row list) \<times> db" where
  "insert_into_reviews p1 p2 p3 p4 now d =
     (case p1 of
        Not_an_integer \<Rightarrow> (Inl Invalid_text_representation, d)
      | Int_id b \<Rightarrow>
          (let d1 = d\<lparr>reviews_id_seq := reviews_id_seq d + 1\<rparr>;
               row = \<lparr>r_id = reviews_id_seq d, r_book_id = Some b, r_user_id = p2,
                      r_rating = p3, r_comment = p4, r_created_at = now\<rparr>
           in if (case p3 of None \<Rightarrow> False | Some n \<Rightarrow> n < 1 \<or> n > 5)
              then (Inl Check_violation, d1)
              else if b \<notin> set (map b_id (books d)) then (Inl Foreign_key_violation, d1)
              else if (case p2 of None \<Rightarrow> False | Some u \<Rightarrow> u \<notin> set (map u_id (users d)))
              then (Inl Foreign_key_violation, d1)
              else (Inr [row], d1\<lparr>reviews := reviews d @ [row]\<rparr>)))"

text \<open>\<open>SELECT * FROM reviews WHERE id = $1\<close>\<close>

definition select_reviews_where_id :: "id_param \<Rightarrow> db \<Rightarrow> db_error + review_row list" where
  "select_reviews_where_id p1 d =
     (case p1 of
        Not_an_integer \<Rightarrow> Inl Invalid_text_representation
      | Int_id i \<Rightarrow> Inr (filter (\<lambda>r. r_id r = i) (reviews d)))"

text \<open>\<open>UPDATE reviews SET rating = $1, comment = $2 WHERE id = $3 RETURNING *\<close>\<close>

definition update_reviews ::
  "int option \<Rightarrow> string option \<Rightarrow> id_param \<Rightarrow> db \<Rightarrow> (db_error + review_row list) \<times> db" where
  "update_reviews p1 p2 p3 d =
     (case p3 of
        Not_an_integer \<Rightarrow> (Inl Invalid_text_representation, d)
      | Int_id i \<Rightarrow>
          if (\<exists>r \<in> set (reviews d). r_id r = i) \<and>
             (case p1 of None \<Rightarrow> False | Some n \<Rightarrow> n < 1 \<or> n > 5)
          then (Inl Check_violation, d)
          else (let upd = (\<lambda>r. if r_id r = i then r\<lparr>r_rating := p1, r_comment := p2\<rparr> else r)
                in (Inr (map upd (filter (\<lambda>r. r_id r = i) (reviews d))),
                    d\<lparr>reviews := map upd (reviews d)\<rparr>)))"

text \<open>\<open>DELETE FROM reviews WHERE id = $1\<close>\<close>

definition delete_from_reviews :: "id_param \<Rightarrow> db \<Rightarrow> (db_error + unit) \<times> db" where
  "delete_from_reviews p1 d =
     (case p1 of
        Not_an_integer \<Rightarrow> (Inl Invalid_text_representation, d)
      | Int_id i \<Rightarrow> (Inr (), d\<lparr>reviews := filter (\<lambda>r. r_id r \<noteq> i) (reviews d)\<rparr>))"

section \<open>Responses\<close>

datatype json =
    Error_json string
  | Message_json string
  | Access_token_json jwt
  | Book_json book_row
  | Review_json review_row
  | No_json

record cookie_options =
  httpOnly :: bool
  secure :: bool
  sameSite :: string
  maxAge :: int

record response =
  status :: nat
  body :: json
  set_cookie :: "(string \<times> jwt \<times> cookie_options) option"

text \<open>\<open>res.status(code).json(j)\<close>; \<open>res.json(j)\<close> alone answers 200.\<close>

definition res_json :: "nat \<Rightarrow> json \<Rightarrow> response" where
  "res_json code j = \<lparr>status = code, body = j, set_cookie = None\<rparr>"

text \<open>The \<open>catch\<close> block that every handler with a \<open>db.query\<close> ends with.\<close>

definition internal_server_error :: response where
  "internal_server_error = res_json 500 (Error_json ''Internal server error'')"

text \<open>\<open>rows[0]\<close> as a JSON body: \<open>undefined\<close> when there is no row.\<close>

definition rows0 :: "('a \<Rightarrow> json) \<Rightarrow> 'a list \<Rightarrow> json" where
  "rows0 f rows = (case rows of [] \<Rightarrow> No_json | r # _ \<Rightarrow> f r)"

section \<open>The handlers of routes/auth.js\<close>

text \<open>The \<open>email\<close> of the request body as the property of a token payload.\<close>

fun claim_of :: "string property \<Rightarrow> claim option" where
  "claim_of Undefined = None"
| "claim_of Null = Some CNull"
| "claim_of (Val s) = Some (CStr s)"

text \<open>\<open>router.post('/signup')\<close>; \<open>salt\<close> is the salt that \<open>bcrypt.hash\<close> draws.\<close>

definition post_signup :: "auth_body \<Rightarrow> string \<Rightarrow> int \<Rightarrow> db \<Rightarrow> response \<times> db" where
  "post_signup req_body salt now d =
     (let existingUser = select_users_where_email (to_sql (email req_body)) d in
      if length existingUser > 0
      then (res_json 400 (Error_json ''Email already exists''), d)
      else (case bcrypt_hash (password req_body) 10 salt of
              Inl err \<Rightarrow> (internal_server_error, d)
            | Inr hashedPassword \<Rightarrow>
                (case insert_into_users (to_sql (email req_body)) hashedPassword now d of
                   (Inl err, d') \<Rightarrow> (internal_server_error, d')
                 | (Inr u, d') \<Rightarrow> (res_json 201 (Message_json ''Signup success''), d'))))"

text \<open>
  \<open>router.post('/login')\<close>; \<open>'1m'\<close> is 60 seconds, \<open>'7d'\<close> is 604800 seconds, and the
  cookie's \<open>maxAge\<close> is in milliseconds.
\<close>

definition post_login :: "auth_body \<Rightarrow> string \<Rightarrow> int \<Rightarrow> db \<Rightarrow> response \<times> db" where
  "post_login req_body secret now d =
     (case select_users_where_email (to_sql (email req_body)) d of
        [] \<Rightarrow> (res_json 400 (Error_json ''Invalid email''), d)
      | user # _ \<Rightarrow>
          (case bcrypt_compare (password req_body) (u_password user) of
             Inl err \<Rightarrow> (internal_server_error, d)
           | Inr valid \<Rightarrow>
               if \<not> valid then (res_json 400 (Error_json ''Invalid password''), d)
               else
                 (case jwt_sign [(''email'', claim_of (email req_body))] secret 60 now of
                    Inl err \<Rightarrow> (internal_server_error, d)
                  | Inr accessToken \<Rightarrow>
                      (case jwt_sign [(''email'', claim_of (email req_body))] secret
                              (7 * 24 * 60 * 60) now of
                         Inl err \<Rightarrow> (internal_server_error, d)
                       | Inr refreshToken \<Rightarrow>
                           (\<lparr>status = 200, body = Access_token_json accessToken,
                             set_cookie = Some (''refreshToken'', refreshToken,
                               \<lparr>httpOnly = True, secure = False, sameSite = ''strict'',
                                maxAge = 7 * 24 * 60 * 60 * 1000\<rparr>)\<rparr>, d)))))"

text \<open>
  \<open>router.post('/refresh-token')\<close>; \<open>cookie\<close> is \<open>req.cookies.refreshToken\<close>, and
  \<open>!token\<close> holds of a missing cookie and of the empty string. The store is an
  argument only to be handed back: the handler calls no \<open>db.query\<close>.
\<close>

definition post_refresh_token ::
  "cookie_value option \<Rightarrow> string \<Rightarrow> int \<Rightarrow> db \<Rightarrow> response \<times> db" where
  "post_refresh_token cookie secret now d =
     (case cookie of
        None \<Rightarrow> (res_json 401 (Error_json ''No refresh token''), d)
      | Some token \<Rightarrow>
          if token = Not_a_jwt [] then (res_json 401 (Error_json ''No refresh token''), d)
          else
            (case jwt_verify token secret now of
               Inl err \<Rightarrow> (res_json 403 (Error_json ''Invalid refresh token''), d)
             | Inr decoded \<Rightarrow>
                 (case jwt_sign [(''email'', map_of decoded ''email'')] secret 60 now of
                    Inl err \<Rightarrow> (res_json 403 (Error_json ''Invalid refresh token''), d)
                  | Inr accessToken \<Rightarrow> (res_json 200 (Access_token_json accessToken), d))))"

section \<open>The handlers of routes/books.js that write\<close>

text \<open>
  Each of these runs behind \<open>authenticateToken\<close>; \<open>req_user_id\<close> is \<open>req.user.id\<close>, the
  property of the identity that the middleware attached to the request.
\<close>

text \<open>\<open>router.post('/')\<close>\<close>

definition post_books :: "book_body \<Rightarrow> int \<Rightarrow> db \<Rightarrow> response \<times> db" where
  "post_books req_body now d =
     (if falsy_str (title req_body) \<or> falsy_str (author req_body)
      then (res_json 400 (Error_json ''Title and author are required''), d)
      else (case insert_into_books (to_sql (title req_body)) (to_sql (author req_body))
                   (or_null (genre req_body)) (or_null (description req_body)) now d of
              (Inl err, d') \<Rightarrow> (internal_server_error, d')
            | (Inr rows, d') \<Rightarrow> (res_json 201 (rows0 Book_json rows), d')))"

text \<open>\<open>router.post('/:id/reviews')\<close>\<close>

definition post_books_id_reviews ::
  "id_param \<Rightarrow> int property \<Rightarrow> review_body \<Rightarrow> int \<Rightarrow> db \<Rightarrow> response \<times> db" where
  "post_books_id_reviews bookId req_user_id req_body now d =
     (if falsy_num (rating req_body) \<or> js_lt (rating req_body) 1 \<or> js_gt (rating req_body) 5
      then (res_json 400 (Error_json ''Rating must be between 1 and 5''), d)
      else
        (case select_books_where_id bookId d of
           Inl err \<Rightarrow> (internal_server_error, d)
         | Inr [] \<Rightarrow> (res_json 404 (Error_json ''Book not found''), d)
         | Inr (b # bs) \<Rightarrow>
             (case select_reviews_where_book_user bookId (to_sql req_user_id) d of
                Inl err \<Rightarrow> (internal_server_error, d)
              | Inr (r # rs) \<Rightarrow>
                  (res_json 400 (Error_json ''You have already reviewed this book''), d)
              | Inr [] \<Rightarrow>
                  (case insert_into_reviews bookId (to_sql req_user_id)
                          (to_sql (rating req_body)) (or_null (comment req_body)) now d of
                     (Inl err, d') \<Rightarrow> (internal_server_error, d')
                   | (Inr rows, d') \<Rightarrow> (res_json 201 (rows0 Review_json rows), d')))))"

text \<open>\<open>router.put('/reviews/:id')\<close>; \<open>req_user_id\<close> is read and never used.\<close>

definition put_books_reviews_id ::
  "id_param \<Rightarrow> int property \<Rightarrow> review_body \<Rightarrow> db \<Rightarrow> response \<times> db" where
  "put_books_reviews_id reviewId req_user_id req_body d =
     (if \<not> falsy_num (rating req_body) \<and>
         (js_lt (rating req_body) 1 \<or> js_gt (rating req_body) 5)
      then (res_json 400 (Error_json ''Rating must be between 1 and 5''), d)
      else
        (case select_reviews_where_id reviewId d of
           Inl err \<Rightarrow> (internal_server_error, d)
         | Inr [] \<Rightarrow> (res_json 404 (Error_json ''Review not found or not yours to edit''), d)
         | Inr (r # rs) \<Rightarrow>
             (let updatedRating =
                    (if falsy_num (rating req_body) then r_rating r
                     else to_sql (rating req_body));
                  updatedComment =
                    (case comment req_body of
                       Undefined \<Rightarrow> r_comment r
                     | Null \<Rightarrow> None
                     | Val c \<Rightarrow> Some c)
              in case update_reviews updatedRating updatedComment reviewId d of
                   (Inl err, d') \<Rightarrow> (internal_server_error, d')
                 | (Inr rows, d') \<Rightarrow> (res_json 200 (rows0 Review_json rows), d'))))"

text \<open>\<open>router.delete('/reviews/:id')\<close>; \<open>req_user_id\<close> is read and never used.\<close>

definition delete_books_reviews_id :: "id_param \<Rightarrow> int property \<Rightarrow> db \<Rightarrow> response \<times> db" where
  "delete_books_reviews_id reviewId req_user_id d =
     (case select_reviews_where_id reviewId d of
        Inl err \<Rightarrow> (internal_server_error, d)
      | Inr [] \<Rightarrow> (res_json 404 (Error_json ''Review not found or not yours to delete''), d)
      | Inr (r # rs) \<Rightarrow>
          (case delete_from_reviews reviewId d of
             (Inl err, d') \<Rightarrow> (internal_server_error, d')
           | (Inr u, d') \<Rightarrow> (res_json 200 (Message_json ''Review deleted successfully''), d')))"

section \<open>Requests served one at a time\<close>

text \<open>
  A request that reaches a handler. The three GET handlers of \<open>routes/books.js\<close>
  (\<open>/\<close>, \<open>/search\<close>, \<open>/:id\<close>) call \<open>db.query\<close> with SELECT statements only; they are
  here for their effect on the store, which is none, and their listings are not
  modelled.
\<close>

datatype request =
    Signup auth_body string
  | Login auth_body
  | Refresh_token "cookie_value option"
  | Add_book book_body
  | List_books
  | Search_books
  | Book_details
  | Add_review id_param "int property" review_body
  | Update_review id_param "int property" review_body
  | Delete_review id_param "int property"

text \<open>
  The store after a request that is served alone: no statement of another request
  runs between its first \<open>db.query\<close> and its last. The handler functions above are the
  handlers under this condition.
\<close>

fun serve_alone :: "string \<Rightarrow> int \<Rightarrow> request \<Rightarrow> db \<Rightarrow> db" where
  "serve_alone secret now (Signup b salt) d = snd (post_signup b salt now d)"
| "serve_alone secret now (Login b) d = snd (post_login b secret now d)"
| "serve_alone secret now (Refresh_token c) d = snd (post_refresh_token c secret now d)"
| "serve_alone secret now (Add_book b) d = snd (post_books b now d)"
| "serve_alone secret now List_books d = d"
| "serve_alone secret now Search_books d = d"
| "serve_alone secret now Book_details d = d"
| "serve_alone secret now (Add_review i u b) d = snd (post_books_id_reviews i u b now d)"
| "serve_alone secret now (Update_review i u b) d = snd (put_books_reviews_id i u b d)"
| "serve_alone secret now (Delete_review i u) d = snd (delete_books_reviews_id i u d)"

text \<open>
  A serial run: the requests, each with the clock at which it is served, one after the
  other.
\<close>

fun serial_run :: "string \<Rightarrow> (int \<times> request) list \<Rightarrow> db \<Rightarrow> db" where
  "serial_run secret [] d = d"
| "serial_run secret ((now, req) # rest) d =
     serial_run secret rest (serve_alone secret now req d)"

text \<open>A request whose requester, where the handler stores it, has an \<open>id\<close>.\<close>

fun identified :: "request \<Rightarrow> bool" where
  "identified (Add_review i (Val u) b) = True"
| "identified (Add_review i Undefined b) = False"
| "identified (Add_review i Null b) = False"
| "identified req = True"

text \<open>
  The rows of the reviews table with a given pair of \<open>book_id\<close> and \<open>user_id\<close> column
  values, NULL being a value like any other here.
\<close>

definition rows_for_pair :: "int option \<Rightarrow> int option \<Rightarrow> review_row list \<Rightarrow> review_row list" where
  "rows_for_pair b u rs = filter (\<lambda>r. r_book_id r = b \<and> r_user_id r = u) rs"

section \<open>Overlapping requests\<close>

text \<open>
  \<open>router.post('/:id/reviews')\<close> statement by statement. The handler awaits each of its
  three \<open>db.query\<close> calls, and between two of them the statements of other requests may
  run: each step below is one \<open>db.query\<close> on the store as it is at that moment. The
  rating is validated before the first one.
\<close>

datatype review_stage =
    Await_book_check
  | Await_existing_review
  | Await_insert
  | Responded response

definition post_review_step ::
  "id_param \<Rightarrow> int property \<Rightarrow> review_body \<Rightarrow> int \<Rightarrow> review_stage \<Rightarrow> db
     \<Rightarrow> review_stage \<times> db" where
  "post_review_step bookId req_user_id req_body now stage d =
     (case stage of
        Await_book_check \<Rightarrow>
          if falsy_num (rating req_body) \<or> js_lt (rating req_body) 1
             \<or> js_gt (rating req_body) 5
          then (Responded (res_json 400 (Error_json ''Rating must be between 1 and 5'')), d)
          else
            (case select_books_where_id bookId d of
               Inl err \<Rightarrow> (Responded internal_server_error, d)
             | Inr [] \<Rightarrow> (Responded (res_json 404 (Error_json ''Book not found'')), d)
             | Inr (b # bs) \<Rightarrow> (Await_existing_review, d))
      | Await_existing_review \<Rightarrow>
          (case select_reviews_where_book_user bookId (to_sql req_user_id) d of
             Inl err \<Rightarrow> (Responded internal_server_error, d)
           | Inr (r # rs) \<Rightarrow>
               (Responded (res_json 400 (Error_json ''You have already reviewed this book'')), d)
           | Inr [] \<Rightarrow> (Await_insert, d))
      | Await_insert \<Rightarrow>
          (case insert_into_reviews bookId (to_sql req_user_id)
                  (to_sql (rating req_body)) (or_null (comment req_body)) now d of
             (Inl err, d') \<Rightarrow> (Responded internal_server_error, d')
           | (Inr rows, d') \<Rightarrow> (Responded (res_json 201 (rows0 Review_json rows)), d'))
      | Responded r \<Rightarrow> (Responded r, d))"

section \<open>A concrete store\<close>

text \<open>
  Two users, one book, and one review of that book written by the first user. The
  closed instances of the theorems below are computed on it.
\<close>

definition alice :: user_row where
  "alice = \<lparr>u_id = 1, u_email = ''a@x.com'',
            u_password = Bcrypt 10 ''salt-a'' ''p1'', u_created_at = 100\<rparr>"

definition bob :: user_row where
  "bob = \<lparr>u_id = 2, u_email = ''b@x.com'',
          u_password = Bcrypt 10 ''salt-b'' ''p2'', u_created_at = 200\<rparr>"

definition gatsby :: book_row where
  "gatsby = \<lparr>b_id = 1, b_title = ''The Great Gatsby'', b_author = ''F. Scott Fitzgerald'',
             b_genre = Some ''Fiction'', b_description = None, b_created_at = 300\<rparr>"

definition alice_review :: review_row where
  "alice_review = \<lparr>r_id = 1, r_book_id = Some 1, r_user_id = Some 1, r_rating = Some 4,
                   r_comment = Some ''good'', r_created_at = 400\<rparr>"

definition store1 :: db where
  "store1 = \<lparr>users = [alice, bob], books = [gatsby], reviews = [alice_review],
             users_id_seq = 3, books_id_seq = 2, reviews_id_seq = 2\<rparr>"

definition empty_store :: db where
  "empty_store = \<lparr>users = [], books = [], reviews = [],
                  users_id_seq = 1, books_id_seq = 1, reviews_id_seq = 1\<rparr>"

text \<open>The refresh token that a login of the first user at time 1000 yields under the secret \<open>k\<close>.\<close>

definition alice_refresh_token :: jwt where
  "alice_refresh_token =
     \<lparr>claims = [(''email'', CStr ''a@x.com''), (''iat'', CNum 1000), (''exp'', CNum 605800)],
      signed_with = ''k''\<rparr>"

section \<open>Auxiliary facts\<close>

lemma filter_unique_key:
  "distinct (map f xs) \<Longrightarrow> x \<in> set xs \<Longrightarrow> filter (\<lambda>y. f y = f x) xs = [x]"
proof (induction xs)
  case Nil
  then show ?case by simp
next
  case (Cons a xs)
  show ?case
  proof (cases "a = x")
    case True
    with Cons.prems have "f x \<notin> f ` set xs" by simp
    then have "\<forall>y \<in> set xs. f y \<noteq> f x" by (metis imageI)
    then have "filter (\<lambda>y. f y = f x) xs = []" by (simp add: filter_empty_conv)
    with True show ?thesis by simp
  next
    case False
    with Cons.prems have "x \<in> set xs" "f a \<noteq> f x" by auto
    with Cons show ?thesis by simp
  qed
qed

lemma rating_ok_check:
  assumes "\<not> (\<not> falsy_num x \<and> (js_lt x 1 \<or> js_gt x 5))"
    and "\<forall>n. r_rating r = Some n \<longrightarrow> 1 \<le> n \<and> n \<le> 5"
  shows "\<not> (case (if falsy_num x then r_rating r else to_sql x) of
              None \<Rightarrow> False | Some n \<Rightarrow> n < 1 \<or> n > 5)"
  using assms by (cases x) (auto split: option.splits)

lemma stringify_email:
  "stringify [(''email'', c)] = (case c of None \<Rightarrow> [] | Some v \<Rightarrow> [(''email'', v)])"
  by (simp add: stringify_def List.map_filter_def split: option.splits)

lemma map_of_issued:
  "map_of (stringify [(''email'', c)] @ [(''iat'', CNum i), (''exp'', CNum x)]) ''email'' = c"
  "map_of (stringify [(''email'', c)] @ [(''iat'', CNum i), (''exp'', CNum x)]) ''exp'' = Some (CNum x)"
  "map_of (stringify [(''email'', c)] @ [(''iat'', CNum i), (''exp'', CNum x)]) ''nbf'' = None"
  "map_of (stringify [(''email'', c)] @ [(''iat'', CNum i), (''exp'', CNum x)]) ''id'' = None"
  by (simp_all add: stringify_email split: option.splits)

lemma verify_issued:
  assumes "secret \<noteq> []"
  shows "jwt_verify (Jwt \<lparr>claims = stringify [(''email'', c)] @ [(''iat'', CNum i), (''exp'', CNum x)],
                          signed_with = secret\<rparr>) secret t =
         (if t \<ge> x then Inl Jwt_expired
          else Inr (stringify [(''email'', c)] @ [(''iat'', CNum i), (''exp'', CNum x)]))"
  using assms by (cases c) (simp_all add: jwt_verify_def check_exp_def stringify_email)

lemma login_success_shape:
  assumes "status (fst (post_login b secret now d)) = 200"
  shows "\<exists>e. email b = Val e \<and> secret \<noteq> [] \<and>
     post_login b secret now d =
       (\<lparr>status = 200,
         body = Access_token_json
           \<lparr>claims = [(''email'', CStr e), (''iat'', CNum now), (''exp'', CNum (now + 60))],
            signed_with = secret\<rparr>,
         set_cookie = Some (''refreshToken'',
           \<lparr>claims = [(''email'', CStr e), (''iat'', CNum now), (''exp'', CNum (now + 604800))],
            signed_with = secret\<rparr>,
           \<lparr>httpOnly = True, secure = False, sameSite = ''strict'', maxAge = 604800000\<rparr>)\<rparr>, d)"
proof (cases "select_users_where_email (to_sql (email b)) d")
  case Nil
  with assms show ?thesis by (simp add: post_login_def res_json_def)
next
  case (Cons user rest)
  then obtain e where e: "email b = Val e"
    by (cases "email b") (simp_all add: select_users_where_email_def)
  show ?thesis
  proof (cases "bcrypt_compare (password b) (u_password user)")
    case (Inl err)
    with assms Cons show ?thesis
      by (simp add: post_login_def internal_server_error_def res_json_def)
  next
    case (Inr valid)
    show ?thesis
    proof (cases "valid \<and> secret \<noteq> []")
      case True
      with Cons Inr e show ?thesis
        by (simp add: post_login_def jwt_sign_def stringify_email)
    next
      case False
      with assms Cons Inr show ?thesis
        by (auto simp: post_login_def jwt_sign_def internal_server_error_def res_json_def
            split: if_splits)
    qed
  qed
qed

lemma refresh_success_shape:
  assumes "status (fst (post_refresh_token c secret now d)) = 200"
  shows "\<exists>t. c = Some (Jwt t) \<and> secret \<noteq> [] \<and> jwt_verify (Jwt t) secret now = Inr (claims t) \<and>
     post_refresh_token c secret now d =
       (\<lparr>status = 200,
         body = Access_token_json
           \<lparr>claims = stringify [(''email'', map_of (claims t) ''email'')] @
                       [(''iat'', CNum now), (''exp'', CNum (now + 60))],
            signed_with = secret\<rparr>,
         set_cookie = None\<rparr>, d)"
proof (cases c)
  case None
  with assms show ?thesis by (simp add: post_refresh_token_def res_json_def)
next
  case (Some token)
  show ?thesis
  proof (cases token)
    case (Not_a_jwt s)
    with assms Some show ?thesis
      by (simp add: post_refresh_token_def jwt_verify_def res_json_def split: if_splits)
  next
    case (Jwt t)
    show ?thesis
    proof (cases "jwt_verify (Jwt t) secret now")
      case (Inl err)
      with assms Some Jwt show ?thesis by (simp add: post_refresh_token_def res_json_def)
    next
      case (Inr decoded)
      then have s: "secret \<noteq> []" by (auto simp: jwt_verify_def)
      from Inr have dec: "decoded = claims t"
        by (auto simp: jwt_verify_def check_exp_def
            split: if_splits option.splits claim.splits)
      from Some Jwt Inr s dec show ?thesis
        by (simp add: post_refresh_token_def jwt_sign_def res_json_def)
    qed
  qed
qed

lemma post_signup_reviews: "reviews (snd (post_signup b salt now d)) = reviews d"
  by (simp add: post_signup_def insert_into_users_def Let_def
      split: sum.splits option.splits prod.splits)

lemma post_login_store: "snd (post_login b secret now d) = d"
  by (simp add: post_login_def split: list.splits sum.splits)

lemma post_refresh_token_store: "snd (post_refresh_token c secret now d) = d"
  by (simp add: post_refresh_token_def split: option.splits sum.splits)

lemma post_books_reviews: "reviews (snd (post_books b now d)) = reviews d"
  by (simp add: post_books_def insert_into_books_def Let_def
      split: sum.splits option.splits prod.splits)

lemma put_reviews_shape:
  "reviews (snd (put_books_reviews_id i u b d)) = reviews d
   \<or> (\<exists>k x y. reviews (snd (put_books_reviews_id i u b d)) =
         map (\<lambda>r. if r_id r = k then r\<lparr>r_rating := x, r_comment := y\<rparr> else r) (reviews d))"
proof (cases i)
  case Not_an_integer
  then show ?thesis
    by (simp add: put_books_reviews_id_def select_reviews_where_id_def)
next
  case (Int_id k)
  show ?thesis
  proof (cases "filter (\<lambda>r. r_id r = k) (reviews d)")
    case Nil
    with Int_id show ?thesis
      by (simp add: put_books_reviews_id_def select_reviews_where_id_def)
  next
    case (Cons r rs)
    with Int_id show ?thesis
      by (auto simp: put_books_reviews_id_def select_reviews_where_id_def update_reviews_def
          Let_def)
  qed
qed

lemma delete_reviews_shape:
  "reviews (snd (delete_books_reviews_id i u d)) = reviews d
   \<or> (\<exists>k. reviews (snd (delete_books_reviews_id i u d)) = filter (\<lambda>r. r_id r \<noteq> k) (reviews d))"
proof (cases i)
  case Not_an_integer
  then show ?thesis
    by (simp add: delete_books_reviews_id_def select_reviews_where_id_def)
next
  case (Int_id k)
  then show ?thesis
    by (cases "filter (\<lambda>r. r_id r = k) (reviews d)")
      (auto simp: delete_books_reviews_id_def select_reviews_where_id_def
        delete_from_reviews_def)
qed

lemma insert_into_reviews_shape:
  "insert_into_reviews (Int_id b) p2 p3 p4 now d = (res, d') \<Longrightarrow>
     (\<exists>err. res = Inl err \<and> reviews d' = reviews d)
     \<or> (res = Inr [\<lparr>r_id = reviews_id_seq d, r_book_id = Some b, r_user_id = p2,
                      r_rating = p3, r_comment = p4, r_created_at = now\<rparr>]
        \<and> reviews d' = reviews d @ [\<lparr>r_id = reviews_id_seq d, r_book_id = Some b,
              r_user_id = p2, r_rating = p3, r_comment = p4, r_created_at = now\<rparr>])"
  by (auto simp: insert_into_reviews_def Let_def split: if_splits)

lemma post_reviews_shape:
  "(status (fst (post_books_id_reviews bookId uid rb now d)) \<noteq> 201
      \<and> reviews (snd (post_books_id_reviews bookId uid rb now d)) = reviews d)
   \<or> (\<exists>b. bookId = Int_id b
        \<and> status (fst (post_books_id_reviews bookId uid rb now d)) = 201
        \<and> (\<forall>u. to_sql uid = Some u \<longrightarrow>
              filter (\<lambda>r. r_book_id r = Some b \<and> r_user_id r = Some u) (reviews d) = [])
        \<and> reviews (snd (post_books_id_reviews bookId uid rb now d)) =
            reviews d @ [\<lparr>r_id = reviews_id_seq d, r_book_id = Some b,
              r_user_id = to_sql uid, r_rating = to_sql (rating rb),
              r_comment = or_null (comment rb), r_created_at = now\<rparr>])"
proof (cases "falsy_num (rating rb) \<or> js_lt (rating rb) 1 \<or> js_gt (rating rb) 5")
  case True
  then show ?thesis by (simp add: post_books_id_reviews_def res_json_def)
next
  case rating_ok: False
  show ?thesis
  proof (cases bookId)
    case Not_an_integer
    with rating_ok show ?thesis
      by (simp add: post_books_id_reviews_def select_books_where_id_def
          internal_server_error_def res_json_def)
  next
    case (Int_id b)
    show ?thesis
    proof (cases "filter (\<lambda>x. b_id x = b) (books d)")
      case Nil
      with rating_ok Int_id show ?thesis
        by (simp add: post_books_id_reviews_def select_books_where_id_def res_json_def)
    next
      case book: (Cons bk bks)
      show ?thesis
      proof (cases "select_reviews_where_book_user (Int_id b) (to_sql uid) d")
        case (Inl err)
        then show ?thesis by (simp add: select_reviews_where_book_user_def split: option.splits)
      next
        case (Inr rows)
        show ?thesis
        proof (cases rows)
          case (Cons r rs)
          with rating_ok Int_id book Inr show ?thesis
            by (simp add: post_books_id_reviews_def select_books_where_id_def res_json_def)
        next
          case Nil
          with Inr have none: "\<forall>u. to_sql uid = Some u \<longrightarrow>
              filter (\<lambda>r. r_book_id r = Some b \<and> r_user_id r = Some u) (reviews d) = []"
            by (auto simp: select_reviews_where_book_user_def)
          obtain res d' where ins: "insert_into_reviews (Int_id b) (to_sql uid)
              (to_sql (rating rb)) (or_null (comment rb)) now d = (res, d')"
            by (cases "insert_into_reviews (Int_id b) (to_sql uid)
              (to_sql (rating rb)) (or_null (comment rb)) now d") blast
          from insert_into_reviews_shape [OF ins] show ?thesis
          proof
            assume "\<exists>err. res = Inl err \<and> reviews d' = reviews d"
            with rating_ok Int_id book Inr Nil ins show ?thesis
              by (auto simp: post_books_id_reviews_def select_books_where_id_def
                  internal_server_error_def res_json_def)
          next
            assume "res = Inr [\<lparr>r_id = reviews_id_seq d, r_book_id = Some b,
                r_user_id = to_sql uid, r_rating = to_sql (rating rb),
                r_comment = or_null (comment rb), r_created_at = now\<rparr>]
              \<and> reviews d' = reviews d @ [\<lparr>r_id = reviews_id_seq d, r_book_id = Some b,
                r_user_id = to_sql uid, r_rating = to_sql (rating rb),
                r_comment = or_null (comment rb), r_created_at = now\<rparr>]"
            with rating_ok Int_id book Inr Nil ins none show ?thesis
              by (simp add: post_books_id_reviews_def select_books_where_id_def
                  rows0_def res_json_def)
          qed
        qed
      qed
    qed
  qed
qed

lemma serve_alone_reviews:
  "reviews (serve_alone secret now req d) = reviews d
   \<or> (\<exists>k x y. reviews (serve_alone secret now req d) =
         map (\<lambda>r. if r_id r = k then r\<lparr>r_rating := x, r_comment := y\<rparr> else r) (reviews d))
   \<or> (\<exists>k. reviews (serve_alone secret now req d) = filter (\<lambda>r. r_id r \<noteq> k) (reviews d))
   \<or> (\<exists>b p row. reviews (serve_alone secret now req d) = reviews d @ [row]
        \<and> r_book_id row = Some b \<and> r_user_id row = p
        \<and> (identified req \<longrightarrow> p \<noteq> None)
        \<and> (\<forall>u. p = Some u \<longrightarrow>
              filter (\<lambda>r. r_book_id r = Some b \<and> r_user_id r = Some u) (reviews d) = []))"
proof (cases req)
  case (Signup b salt)
  then show ?thesis by (simp add: post_signup_reviews)
next
  case (Login b)
  then show ?thesis by (simp add: post_login_store)
next
  case (Refresh_token c)
  then show ?thesis by (simp add: post_refresh_token_store)
next
  case (Add_book b)
  then show ?thesis by (simp add: post_books_reviews)
next
  case List_books
  then show ?thesis by simp
next
  case Search_books
  then show ?thesis by simp
next
  case Book_details
  then show ?thesis by simp
next
  case (Add_review i u b)
  from post_reviews_shape [of i u b now d] show ?thesis
  proof
    assume "status (fst (post_books_id_reviews i u b now d)) \<noteq> 201
      \<and> reviews (snd (post_books_id_reviews i u b now d)) = reviews d"
    with Add_review show ?thesis by simp
  next
    assume "\<exists>k. i = Int_id k
        \<and> status (fst (post_books_id_reviews i u b now d)) = 201
        \<and> (\<forall>v. to_sql u = Some v \<longrightarrow>
              filter (\<lambda>r. r_book_id r = Some k \<and> r_user_id r = Some v) (reviews d) = [])
        \<and> reviews (snd (post_books_id_reviews i u b now d)) =
            reviews d @ [\<lparr>r_id = reviews_id_seq d, r_book_id = Some k,
              r_user_id = to_sql u, r_rating = to_sql (rating b),
              r_comment = or_null (comment b), r_created_at = now\<rparr>]"
    then obtain k where k: "\<forall>v. to_sql u = Some v \<longrightarrow>
              filter (\<lambda>r. r_book_id r = Some k \<and> r_user_id r = Some v) (reviews d) = []"
      and app: "reviews (snd (post_books_id_reviews i u b now d)) =
            reviews d @ [\<lparr>r_id = reviews_id_seq d, r_book_id = Some k,
              r_user_id = to_sql u, r_rating = to_sql (rating b),
              r_comment = or_null (comment b), r_created_at = now\<rparr>]"
      by blast
    let ?row = "\<lparr>r_id = reviews_id_seq d, r_book_id = Some k,
              r_user_id = to_sql u, r_rating = to_sql (rating b),
              r_comment = or_null (comment b), r_created_at = now\<rparr>"
    have "identified req \<longrightarrow> to_sql u \<noteq> None"
      using Add_review by (cases u) simp_all
    then have "reviews (serve_alone secret now req d) = reviews d @ [?row]
        \<and> r_book_id ?row = Some k \<and> r_user_id ?row = to_sql u
        \<and> (identified req \<longrightarrow> to_sql u \<noteq> None)
        \<and> (\<forall>v. to_sql u = Some v \<longrightarrow>
              filter (\<lambda>r. r_book_id r = Some k \<and> r_user_id r = Some v) (reviews d) = [])"
      using Add_review k app by simp
    then show ?thesis by blast
  qed
next
  case (Update_review i u b)
  with put_reviews_shape [of i u b d] show ?thesis by auto
next
  case (Delete_review i u)
  with delete_reviews_shape [of i u d] show ?thesis by auto
qed

lemma rows_for_pair_update:
  "rows_for_pair b u (map (\<lambda>r. if r_id r = k then r\<lparr>r_rating := x, r_comment := y\<rparr> else r) rs) =
     map (\<lambda>r. if r_id r = k then r\<lparr>r_rating := x, r_comment := y\<rparr> else r) (rows_for_pair b u rs)"
  by (induction rs) (simp_all add: rows_for_pair_def)

lemma rows_for_pair_delete:
  "length (rows_for_pair b u (filter P rs)) \<le> length (rows_for_pair b u rs)"
  by (induction rs) (simp_all add: rows_for_pair_def)

lemma pair_step:
  assumes le: "length (rows_for_pair b u (reviews d)) \<le> 1"
    and who: "identified req \<or> (\<exists>i j. b = Some i \<and> u = Some j)"
  shows "length (rows_for_pair b u (reviews (serve_alone secret now req d))) \<le> 1"
proof -
  from serve_alone_reviews [of secret now req d] show ?thesis
  proof (elim disjE exE conjE)
    assume "reviews (serve_alone secret now req d) = reviews d"
    with le show ?thesis by simp
  next
    fix k x y
    assume "reviews (serve_alone secret now req d) =
         map (\<lambda>r. if r_id r = k then r\<lparr>r_rating := x, r_comment := y\<rparr> else r) (reviews d)"
    with le show ?thesis by (simp add: rows_for_pair_update)
  next
    fix k
    assume "reviews (serve_alone secret now req d) = filter (\<lambda>r. r_id r \<noteq> k) (reviews d)"
    with le rows_for_pair_delete [of b u "\<lambda>r. r_id r \<noteq> k" "reviews d"] show ?thesis by simp
  next
    fix b' p row
    assume app: "reviews (serve_alone secret now req d) = reviews d @ [row]"
      and row: "r_book_id row = Some b'" "r_user_id row = p"
      and idd: "identified req \<longrightarrow> p \<noteq> None"
      and none: "\<forall>v. p = Some v \<longrightarrow>
              filter (\<lambda>r. r_book_id r = Some b' \<and> r_user_id r = Some v) (reviews d) = []"
    show ?thesis
    proof (cases "b = Some b' \<and> u = p")
      case True
      with who idd obtain v where v: "p = Some v" by auto
      with none True have "rows_for_pair b u (reviews d) = []" by (simp add: rows_for_pair_def)
      with app show ?thesis by (simp add: rows_for_pair_def)
    next
      case False
      with row have "rows_for_pair b u (reviews d @ [row]) = rows_for_pair b u (reviews d)"
        by (auto simp: rows_for_pair_def)
      with app le show ?thesis by simp
    qed
  qed
qed

lemma id_pairs_run:
  "\<forall>i j. length (rows_for_pair (Some i) (Some j) (reviews d)) \<le> 1 \<Longrightarrow>
   \<forall>i j. length (rows_for_pair (Some i) (Some j) (reviews (serial_run secret trace d))) \<le> 1"
proof (induction trace arbitrary: d)
  case Nil
  then show ?case by simp
next
  case (Cons step rest)
  obtain now req where step: "step = (now, req)" by (cases step)
  from Cons.prems
  have "\<forall>i j. length (rows_for_pair (Some i) (Some j)
      (reviews (serve_alone secret now req d))) \<le> 1"
    by (blast intro: pair_step)
  from Cons.IH [OF this] step show ?case by simp
qed

lemma all_pairs_run:
  "\<forall>p q. length (rows_for_pair p q (reviews d)) \<le> 1 \<Longrightarrow>
   list_all (\<lambda>(now, req). identified req) trace \<Longrightarrow>
   \<forall>p q. length (rows_for_pair p q (reviews (serial_run secret trace d))) \<le> 1"
proof (induction trace arbitrary: d)
  case Nil
  then show ?case by simp
next
  case (Cons step rest)
  obtain now req where step: "step = (now, req)" by (cases step)
  with Cons.prems(2) have idd: "identified req"
    and rest: "list_all (\<lambda>(now, req). identified req) rest" by simp_all
  from Cons.prems(1) idd
  have "\<forall>p q. length (rows_for_pair p q (reviews (serve_alone secret now req d))) \<le> 1"
    by (blast intro: pair_step)
  from Cons.IH [OF this rest] step show ?case by simp
qed

lemma post_review_steps_served_alone:
  "snd (post_review_step i u b now Await_book_check d) = d"
  "snd (post_review_step i u b now (fst (post_review_step i u b now Await_book_check d)) d) = d"
  "post_review_step i u b now
     (fst (post_review_step i u b now (fst (post_review_step i u b now Await_book_check d)) d)) d =
   (Responded (fst (post_books_id_reviews i u b now d)), snd (post_books_id_reviews i u b now d))"
proof -
  show 1: "snd (post_review_step i u b now Await_book_check d) = d"
    by (simp add: post_review_step_def split: sum.splits list.splits)
  show "snd (post_review_step i u b now (fst (post_review_step i u b now Await_book_check d)) d) = d"
    by (simp add: post_review_step_def split: sum.splits list.splits)
  show "post_review_step i u b now
     (fst (post_review_step i u b now (fst (post_review_step i u b now Await_book_check d)) d)) d =
   (Responded (fst (post_books_id_reviews i u b now d)), snd (post_books_id_reviews i u b now d))"
    by (simp add: post_review_step_def post_books_id_reviews_def
        split: sum.splits list.splits prod.splits)
qed

section \<open>The claims\<close>

text \<open>
  C1. Take a review \<open>r\<close> of the store (ids being a key, and its stored rating within
  the column's check). PUT and DELETE \<open>/books/reviews/:id\<close> with its id select it by
  \<open>id\<close> alone: the whole outcome, response and store, is the same for any two
  requesters \<open>u\<close> and \<open>v\<close>. DELETE answers 200 and removes the row; PUT, unless the
  rating in the body is out of range, answers 200 and overwrites the rating and the
  comment of the row. Neither compares \<open>r_user_id r\<close> with the requester.
\<close>

theorem review_mutation_ignores_requester:
  assumes "r \<in> set (reviews d)" and "distinct (map r_id (reviews d))"
    and "\<forall>n. r_rating r = Some n \<longrightarrow> 1 \<le> n \<and> n \<le> 5"
  shows "put_books_reviews_id (Int_id (r_id r)) u b d = put_books_reviews_id (Int_id (r_id r)) v b d
    \<and> delete_books_reviews_id (Int_id (r_id r)) u d = delete_books_reviews_id (Int_id (r_id r)) v d
    \<and> delete_books_reviews_id (Int_id (r_id r)) u d =
        (res_json 200 (Message_json ''Review deleted successfully''),
         d\<lparr>reviews := filter (\<lambda>x. r_id x \<noteq> r_id r) (reviews d)\<rparr>)
    \<and> (\<not> (\<not> falsy_num (rating b) \<and> (js_lt (rating b) 1 \<or> js_gt (rating b) 5)) \<longrightarrow>
        put_books_reviews_id (Int_id (r_id r)) u b d =
          (let upd = (\<lambda>x. if r_id x = r_id r
                 then x\<lparr>r_rating :=
                          (if falsy_num (rating b) then r_rating r else to_sql (rating b)),
                        r_comment :=
                          (case comment b of
                             Undefined \<Rightarrow> r_comment r | Null \<Rightarrow> None | Val c \<Rightarrow> Some c)\<rparr>
                 else x)
           in (res_json 200 (Review_json (upd r)), d\<lparr>reviews := map upd (reviews d)\<rparr>)))"
proof -
  have sel: "filter (\<lambda>x. r_id x = r_id r) (reviews d) = [r]"
    using assms(1,2) by (rule filter_unique_key[rotated])
  have ex: "\<exists>x \<in> set (reviews d). r_id x = r_id r" using assms(1) by blast
  have del: "delete_books_reviews_id (Int_id (r_id r)) u d =
        (res_json 200 (Message_json ''Review deleted successfully''),
         d\<lparr>reviews := filter (\<lambda>x. r_id x \<noteq> r_id r) (reviews d)\<rparr>)"
    by (simp add: delete_books_reviews_id_def select_reviews_where_id_def
        delete_from_reviews_def sel)
  have put: "put_books_reviews_id (Int_id (r_id r)) u b d =
          (let upd = (\<lambda>x. if r_id x = r_id r
                 then x\<lparr>r_rating :=
                          (if falsy_num (rating b) then r_rating r else to_sql (rating b)),
                        r_comment :=
                          (case comment b of
                             Undefined \<Rightarrow> r_comment r | Null \<Rightarrow> None | Val c \<Rightarrow> Some c)\<rparr>
                 else x)
           in (res_json 200 (Review_json (upd r)), d\<lparr>reviews := map upd (reviews d)\<rparr>))"
    if ok: "\<not> (\<not> falsy_num (rating b) \<and> (js_lt (rating b) 1 \<or> js_gt (rating b) 5))"
  proof -
    note chk = rating_ok_check[OF ok assms(3)]
    show ?thesis
      using ok chk ex
      by (auto simp: put_books_reviews_id_def select_reviews_where_id_def
        update_reviews_def sel rows0_def Let_def)
  qed
  show ?thesis
    using del put
    by (simp add: put_books_reviews_id_def delete_books_reviews_id_def)
qed

text \<open>
  On the concrete store, the second user (id 2) rewrites and deletes the review that
  the first user (id 1) wrote.
\<close>

theorem review_mutation_ignores_requester_witness:
  "alice_review \<in> set (reviews store1) \<and> r_user_id alice_review = Some 1
   \<and> put_books_reviews_id (Int_id 1) (Val 2) \<lparr>rating = Val 1, comment = Val ''bad''\<rparr> store1 =
       (res_json 200 (Review_json (alice_review\<lparr>r_rating := Some 1, r_comment := Some ''bad''\<rparr>)),
        store1\<lparr>reviews := [alice_review\<lparr>r_rating := Some 1, r_comment := Some ''bad''\<rparr>]\<rparr>)
   \<and> delete_books_reviews_id (Int_id 1) (Val 2) store1 =
       (res_json 200 (Message_json ''Review deleted successfully''), store1\<lparr>reviews := []\<rparr>)
   \<and> delete_books_reviews_id (Int_id 1) (Val 2) store1 = delete_books_reviews_id (Int_id 1) (Val 1) store1"
proof -
  have h1: "alice_review \<in> set (reviews store1)" by (simp add: store1_def)
  have h2: "distinct (map r_id (reviews store1))" by (simp add: store1_def)
  have h3: "\<forall>n. r_rating alice_review = Some n \<longrightarrow> 1 \<le> n \<and> n \<le> 5"
    by (simp add: alice_review_def)
  have i: "r_id alice_review = 1" by (simp add: alice_review_def)
  note t = review_mutation_ignores_requester [OF h1 h2 h3,
        where u = "Val 2" and v = "Val 1"
          and b = "\<lparr>rating = Val 1, comment = Val ''bad''\<rparr>"]
  have p: "put_books_reviews_id (Int_id 1) (Val 2) \<lparr>rating = Val 1, comment = Val ''bad''\<rparr> store1 =
       (res_json 200 (Review_json (alice_review\<lparr>r_rating := Some 1, r_comment := Some ''bad''\<rparr>)),
        store1\<lparr>reviews := [alice_review\<lparr>r_rating := Some 1, r_comment := Some ''bad''\<rparr>]\<rparr>)"
    using t [THEN conjunct2, THEN conjunct2, THEN conjunct2]
    by (simp add: i) (simp add: store1_def alice_review_def)
  have q: "delete_books_reviews_id (Int_id 1) (Val 2) store1 =
       (res_json 200 (Message_json ''Review deleted successfully''), store1\<lparr>reviews := []\<rparr>)"
    using t [THEN conjunct2, THEN conjunct2, THEN conjunct1]
    by (simp add: i) (simp add: store1_def alice_review_def)
  have e: "delete_books_reviews_id (Int_id 1) (Val 2) store1 =
      delete_books_reviews_id (Int_id 1) (Val 1) store1"
    using t [THEN conjunct2, THEN conjunct1] by (simp add: i)
  show ?thesis
    using h1 p q e by (simp add: alice_review_def)
qed

text \<open>
  C3. For a stored user (emails being a key of the users table), POST \<open>/auth/login\<close>
  with that user's email and a password that \<open>bcrypt.compare\<close> finds not to match the
  stored hash answers 400 with the error body \<open>Invalid password\<close>: no access token is
  in the body, no cookie is set, and the store is unchanged.
\<close>

theorem login_wrong_password:
  assumes "user \<in> set (users d)" and "distinct (map u_email (users d))"
    and "email b = Val (u_email user)"
    and "bcrypt_compare (password b) (u_password user) = Inr False"
  shows "post_login b secret now d =
           (\<lparr>status = 400, body = Error_json ''Invalid password'', set_cookie = None\<rparr>, d)"
proof -
  have "filter (\<lambda>u. u_email u = u_email user) (users d) = [user]"
    using assms(2,1) by (rule filter_unique_key)
  with assms(3,4) show ?thesis
    by (simp add: post_login_def select_users_where_email_def res_json_def)
qed

text \<open>The first user logs in with the password \<open>wrong\<close>.\<close>

theorem login_wrong_password_witness:
  "alice \<in> set (users store1) \<and> bcrypt_compare (Val ''wrong'') (u_password alice) = Inr False
   \<and> post_login \<lparr>email = Val ''a@x.com'', password = Val ''wrong''\<rparr> ''k'' 1000 store1 =
       (\<lparr>status = 400, body = Error_json ''Invalid password'', set_cookie = None\<rparr>, store1)"
proof -
  have h1: "alice \<in> set (users store1)" by (simp add: store1_def)
  have h2: "distinct (map u_email (users store1))" by (simp add: store1_def alice_def bob_def)
  have h3: "email \<lparr>email = Val ''a@x.com'', password = Val ''wrong''\<rparr> = Val (u_email alice)"
    by (simp add: alice_def)
  have h4: "bcrypt_compare (password \<lparr>email = Val ''a@x.com'', password = Val ''wrong''\<rparr>)
      (u_password alice) = Inr False"
    by (simp add: alice_def bcrypt_compare_def)
  from login_wrong_password [OF h1 h2 h3 h4] h1 h4 show ?thesis by simp
qed

text \<open>
  C6. POST \<open>/auth/refresh-token\<close> calls no \<open>db.query\<close>: for the same cookie, secret and
  clock its response is the same on any two stores, and the store is handed back as it
  was. The refresh token that a successful login issued at time \<open>issued\<close> is accepted
  (200) at every clock before \<open>issued + 7 * 24 * 60 * 60\<close>, whatever the store is by
  then, and refused (403) from that second on: nothing but the signature and the expiry
  decides.
\<close>

theorem refresh_is_stateless:
  "fst (post_refresh_token c secret now d1) = fst (post_refresh_token c secret now d2)
   \<and> snd (post_refresh_token c secret now d1) = d1
   \<and> (status (fst (post_login b secret issued d0)) = 200
        \<and> set_cookie (fst (post_login b secret issued d0)) = Some (name, rt, opts) \<longrightarrow>
        (now < issued + 7 * 24 * 60 * 60 \<longrightarrow>
           status (fst (post_refresh_token (Some (Jwt rt)) secret now d1)) = 200)
        \<and> (issued + 7 * 24 * 60 * 60 \<le> now \<longrightarrow>
           status (fst (post_refresh_token (Some (Jwt rt)) secret now d1)) = 403))"
proof -
  have same: "fst (post_refresh_token c secret now d1) = fst (post_refresh_token c secret now d2)"
    by (simp add: post_refresh_token_def split: option.splits sum.splits)
  have frame: "snd (post_refresh_token c secret now d1) = d1"
    by (simp add: post_refresh_token_def split: option.splits sum.splits)
  have life: "(now < issued + 7 * 24 * 60 * 60 \<longrightarrow>
           status (fst (post_refresh_token (Some (Jwt rt)) secret now d1)) = 200)
        \<and> (issued + 7 * 24 * 60 * 60 \<le> now \<longrightarrow>
           status (fst (post_refresh_token (Some (Jwt rt)) secret now d1)) = 403)"
    if ok: "status (fst (post_login b secret issued d0)) = 200"
      and ck: "set_cookie (fst (post_login b secret issued d0)) = Some (name, rt, opts)"
  proof -
    from login_success_shape [OF ok] ck obtain e where s: "secret \<noteq> []"
      and rt: "rt = \<lparr>claims = stringify [(''email'', Some (CStr e))] @
                [(''iat'', CNum issued), (''exp'', CNum (issued + 604800))],
                signed_with = secret\<rparr>"
      by (auto simp: stringify_email)
    have v: "jwt_verify (Jwt rt) secret now =
        (if now \<ge> issued + 604800 then Inl Jwt_expired else Inr (claims rt))"
      unfolding rt by (simp only: verify_issued [OF s] jwt.simps)
    show ?thesis
      using s v by (simp add: post_refresh_token_def jwt_sign_def res_json_def)
  qed
  from same frame life show ?thesis by (intro conjI impI) (elim conjE | assumption | simp)+
qed

text \<open>
  The first user's refresh token, issued at 1000: the same answer on two stores, accepted
  at 605799 on the empty store, refused at 605800.
\<close>

theorem refresh_is_stateless_witness:
  "fst (post_refresh_token (Some (Jwt alice_refresh_token)) ''k'' 2000 store1) =
     fst (post_refresh_token (Some (Jwt alice_refresh_token)) ''k'' 2000 empty_store)
   \<and> set_cookie (fst (post_login \<lparr>email = Val ''a@x.com'', password = Val ''p1''\<rparr>
          ''k'' 1000 store1)) =
       Some (''refreshToken'', alice_refresh_token,
         \<lparr>httpOnly = True, secure = False, sameSite = ''strict'', maxAge = 604800000\<rparr>)
   \<and> status (fst (post_refresh_token (Some (Jwt alice_refresh_token)) ''k'' 605799
         empty_store)) = 200
   \<and> status (fst (post_refresh_token (Some (Jwt alice_refresh_token)) ''k'' 605800
         empty_store)) = 403"
proof -
  let ?b = "\<lparr>email = Val ''a@x.com'', password = Val ''p1''\<rparr>"
  let ?opts = "\<lparr>httpOnly = True, secure = False, sameSite = ''strict'', maxAge = 604800000\<rparr>"
  have login: "fst (post_login ?b ''k'' 1000 store1) =
      \<lparr>status = 200,
       body = Access_token_json
          \<lparr>claims = [(''email'', CStr ''a@x.com''), (''iat'', CNum 1000), (''exp'', CNum 1060)],
           signed_with = ''k''\<rparr>,
       set_cookie = Some (''refreshToken'', alice_refresh_token, ?opts)\<rparr>"
    by (simp add: post_login_def select_users_where_email_def store1_def alice_def bob_def
        bcrypt_compare_def jwt_sign_def stringify_email alice_refresh_token_def)
  have h: "status (fst (post_login ?b ''k'' 1000 store1)) = 200
      \<and> set_cookie (fst (post_login ?b ''k'' 1000 store1)) =
          Some (''refreshToken'', alice_refresh_token, ?opts)"
    by (simp add: login)
  note early = refresh_is_stateless [where c = "Some (Jwt alice_refresh_token)"
      and secret = "''k''" and now = 2000 and ?d1.0 = store1 and ?d2.0 = empty_store,
      THEN conjunct1]
  note last = refresh_is_stateless [where secret = "''k''" and now = 605799
      and ?d1.0 = empty_store and b = ?b and issued = 1000 and ?d0.0 = store1
      and name = "''refreshToken''" and rt = alice_refresh_token and opts = ?opts,
      THEN conjunct2, THEN conjunct2, THEN mp, OF h, THEN conjunct1]
  note over = refresh_is_stateless [where secret = "''k''" and now = 605800
      and ?d1.0 = empty_store and b = ?b and issued = 1000 and ?d0.0 = store1
      and name = "''refreshToken''" and rt = alice_refresh_token and opts = ?opts,
      THEN conjunct2, THEN conjunct2, THEN mp, OF h, THEN conjunct2]
  have a: "status (fst (post_refresh_token (Some (Jwt alice_refresh_token)) ''k'' 605799
         empty_store)) = 200"
    using last by simp
  have b: "status (fst (post_refresh_token (Some (Jwt alice_refresh_token)) ''k'' 605800
         empty_store)) = 403"
    using over by simp
  from early h a b show ?thesis by (intro conjI) (elim conjE | assumption)+
qed

text \<open>
  C7. A login that answers 200 puts in the body an access token with the claims
  \<open>email\<close>, \<open>iat = now\<close>, \<open>exp = now + 60\<close> and in the \<open>refreshToken\<close> cookie a token with
  \<open>email\<close>, \<open>iat = now\<close>, \<open>exp = now + 7 * 24 * 60 * 60\<close>, both signed with the one
  secret. A refresh that answers 200 puts in the body an access token with the email
  claim of the presented token, \<open>iat = now\<close> and \<open>exp = now + 60\<close>, signed with the same
  secret. \<open>jwt.verify\<close>, given the secret and the clock only, returns the claims of
  each token up to the second before its \<open>exp\<close> and reports it expired from \<open>exp\<close> on.
\<close>

theorem token_lifetimes:
  "(status (fst (post_login b secret now d)) = 200 \<longrightarrow>
      (\<exists>e a r.
         email b = Val e
         \<and> body (fst (post_login b secret now d)) = Access_token_json a
         \<and> set_cookie (fst (post_login b secret now d)) =
             Some (''refreshToken'', r,
               \<lparr>httpOnly = True, secure = False, sameSite = ''strict'',
                maxAge = 7 * 24 * 60 * 60 * 1000\<rparr>)
         \<and> a = \<lparr>claims = [(''email'', CStr e), (''iat'', CNum now), (''exp'', CNum (now + 60))],
                 signed_with = secret\<rparr>
         \<and> r = \<lparr>claims = [(''email'', CStr e), (''iat'', CNum now),
                           (''exp'', CNum (now + 7 * 24 * 60 * 60))],
                 signed_with = secret\<rparr>
         \<and> (\<forall>t. jwt_verify (Jwt a) secret t =
                  (if t \<ge> now + 60 then Inl Jwt_expired else Inr (claims a)))
         \<and> (\<forall>t. jwt_verify (Jwt r) secret t =
                  (if t \<ge> now + 7 * 24 * 60 * 60 then Inl Jwt_expired else Inr (claims r)))))
   \<and> (status (fst (post_refresh_token c secret now d)) = 200 \<longrightarrow>
      (\<exists>t a.
         c = Some (Jwt t)
         \<and> body (fst (post_refresh_token c secret now d)) = Access_token_json a
         \<and> a = \<lparr>claims = stringify [(''email'', map_of (claims t) ''email'')] @
                           [(''iat'', CNum now), (''exp'', CNum (now + 60))],
                 signed_with = secret\<rparr>
         \<and> map_of (claims a) ''email'' = map_of (claims t) ''email''
         \<and> (\<forall>t'. jwt_verify (Jwt a) secret t' =
                  (if t' \<ge> now + 60 then Inl Jwt_expired else Inr (claims a)))))"
proof (intro conjI impI)
  assume ok: "status (fst (post_login b secret now d)) = 200"
  from login_success_shape [OF ok] obtain e where e: "email b = Val e" and s: "secret \<noteq> []"
    and eq: "post_login b secret now d =
       (\<lparr>status = 200,
         body = Access_token_json
           \<lparr>claims = [(''email'', CStr e), (''iat'', CNum now), (''exp'', CNum (now + 60))],
            signed_with = secret\<rparr>,
         set_cookie = Some (''refreshToken'',
           \<lparr>claims = [(''email'', CStr e), (''iat'', CNum now), (''exp'', CNum (now + 604800))],
            signed_with = secret\<rparr>,
           \<lparr>httpOnly = True, secure = False, sameSite = ''strict'', maxAge = 604800000\<rparr>)\<rparr>, d)"
    by blast
  have v: "jwt_verify (Jwt \<lparr>claims = [(''email'', CStr e), (''iat'', CNum now), (''exp'', CNum x)],
            signed_with = secret\<rparr>) secret t =
         (if t \<ge> x then Inl Jwt_expired
          else Inr [(''email'', CStr e), (''iat'', CNum now), (''exp'', CNum x)])" for x t
    using verify_issued [OF s, of "Some (CStr e)" now x t] by (simp add: stringify_email)
  show "\<exists>e a r.
         email b = Val e
         \<and> body (fst (post_login b secret now d)) = Access_token_json a
         \<and> set_cookie (fst (post_login b secret now d)) =
             Some (''refreshToken'', r,
               \<lparr>httpOnly = True, secure = False, sameSite = ''strict'',
                maxAge = 7 * 24 * 60 * 60 * 1000\<rparr>)
         \<and> a = \<lparr>claims = [(''email'', CStr e), (''iat'', CNum now), (''exp'', CNum (now + 60))],
                 signed_with = secret\<rparr>
         \<and> r = \<lparr>claims = [(''email'', CStr e), (''iat'', CNum now),
                           (''exp'', CNum (now + 7 * 24 * 60 * 60))],
                 signed_with = secret\<rparr>
         \<and> (\<forall>t. jwt_verify (Jwt a) secret t =
                  (if t \<ge> now + 60 then Inl Jwt_expired else Inr (claims a)))
         \<and> (\<forall>t. jwt_verify (Jwt r) secret t =
                  (if t \<ge> now + 7 * 24 * 60 * 60 then Inl Jwt_expired else Inr (claims r)))"
    using e by (simp add: eq v)
next
  assume ok: "status (fst (post_refresh_token c secret now d)) = 200"
  from refresh_success_shape [OF ok] obtain t where c: "c = Some (Jwt t)" and s: "secret \<noteq> []"
    and eq: "post_refresh_token c secret now d =
       (\<lparr>status = 200,
         body = Access_token_json
           \<lparr>claims = stringify [(''email'', map_of (claims t) ''email'')] @
                       [(''iat'', CNum now), (''exp'', CNum (now + 60))],
            signed_with = secret\<rparr>,
         set_cookie = None\<rparr>, d)"
    by blast
  show "\<exists>t a.
         c = Some (Jwt t)
         \<and> body (fst (post_refresh_token c secret now d)) = Access_token_json a
         \<and> a = \<lparr>claims = stringify [(''email'', map_of (claims t) ''email'')] @
                           [(''iat'', CNum now), (''exp'', CNum (now + 60))],
                 signed_with = secret\<rparr>
         \<and> map_of (claims a) ''email'' = map_of (claims t) ''email''
         \<and> (\<forall>t'. jwt_verify (Jwt a) secret t' =
                  (if t' \<ge> now + 60 then Inl Jwt_expired else Inr (claims a)))"
    using c by (simp add: eq [unfolded c] verify_issued [OF s] map_of_issued(1)
        del: map_of_append)
qed

text \<open>
  The first user's login at 1000 and a refresh at 2000: the refresh token verifies at
  605799 and is expired at 605800; the refreshed access token expires at 2060.
\<close>

theorem token_lifetimes_witness:
  "status (fst (post_login \<lparr>email = Val ''a@x.com'', password = Val ''p1''\<rparr> ''k'' 1000 store1)) = 200
   \<and> set_cookie (fst (post_login \<lparr>email = Val ''a@x.com'', password = Val ''p1''\<rparr> ''k'' 1000
         store1)) =
       Some (''refreshToken'', alice_refresh_token,
         \<lparr>httpOnly = True, secure = False, sameSite = ''strict'', maxAge = 604800000\<rparr>)
   \<and> jwt_verify (Jwt alice_refresh_token) ''k'' 605799 = Inr (claims alice_refresh_token)
   \<and> jwt_verify (Jwt alice_refresh_token) ''k'' 605800 = Inl Jwt_expired
   \<and> status (fst (post_refresh_token (Some (Jwt alice_refresh_token)) ''k'' 2000 store1)) = 200
   \<and> body (fst (post_refresh_token (Some (Jwt alice_refresh_token)) ''k'' 2000 store1)) =
       Access_token_json
         \<lparr>claims = [(''email'', CStr ''a@x.com''), (''iat'', CNum 2000), (''exp'', CNum 2060)],
          signed_with = ''k''\<rparr>"
proof -
  let ?b = "\<lparr>email = Val ''a@x.com'', password = Val ''p1''\<rparr>"
  have h1: "status (fst (post_login ?b ''k'' 1000 store1)) = 200"
    by (simp add: post_login_def select_users_where_email_def store1_def alice_def bob_def
        bcrypt_compare_def jwt_sign_def)
  have h2: "status (fst (post_refresh_token (Some (Jwt alice_refresh_token)) ''k'' 2000 store1)) = 200"
    by (simp add: post_refresh_token_def jwt_verify_def check_exp_def jwt_sign_def
        alice_refresh_token_def res_json_def)
  from token_lifetimes [where b = ?b and secret = "''k''" and now = 1000 and d = store1,
      THEN conjunct1, THEN mp, OF h1]
  obtain e r where e: "email ?b = Val e"
    and ck: "set_cookie (fst (post_login ?b ''k'' 1000 store1)) =
             Some (''refreshToken'', r,
               \<lparr>httpOnly = True, secure = False, sameSite = ''strict'',
                maxAge = 7 * 24 * 60 * 60 * 1000\<rparr>)"
    and r: "r = \<lparr>claims = [(''email'', CStr e), (''iat'', CNum 1000),
                           (''exp'', CNum (1000 + 7 * 24 * 60 * 60))],
                 signed_with = ''k''\<rparr>"
    and v: "\<forall>t. jwt_verify (Jwt r) ''k'' t =
                  (if t \<ge> 1000 + 7 * 24 * 60 * 60 then Inl Jwt_expired else Inr (claims r))"
    by blast
  from e r have r': "r = alice_refresh_token" by (simp add: alice_refresh_token_def)
  from v [unfolded r', THEN spec, of 605799]
  have v1: "jwt_verify (Jwt alice_refresh_token) ''k'' 605799 = Inr (claims alice_refresh_token)"
    by simp
  from v [unfolded r', THEN spec, of 605800]
  have v2: "jwt_verify (Jwt alice_refresh_token) ''k'' 605800 = Inl Jwt_expired"
    by simp
  from token_lifetimes [where c = "Some (Jwt alice_refresh_token)" and secret = "''k''"
      and now = 2000 and d = store1, THEN conjunct2, THEN mp, OF h2]
  have b: "body (fst (post_refresh_token (Some (Jwt alice_refresh_token)) ''k'' 2000 store1)) =
       Access_token_json
         \<lparr>claims = [(''email'', CStr ''a@x.com''), (''iat'', CNum 2000), (''exp'', CNum 2060)],
          signed_with = ''k''\<rparr>"
    by (auto simp: alice_refresh_token_def stringify_email)
  from h1 ck [unfolded r'] v1 v2 h2 b show ?thesis by simp
qed

text \<open>
  C9. POST \<open>/auth/refresh-token\<close> never sets a cookie, whatever it answers, and hands the
  store back as it was; when it answers 200 the response is the status, the JSON body
  with the new access token, and nothing else. The refresh token is not rotated.
\<close>

theorem refresh_sets_no_cookie:
  "set_cookie (fst (post_refresh_token c secret now d)) = None
   \<and> snd (post_refresh_token c secret now d) = d
   \<and> (status (fst (post_refresh_token c secret now d)) = 200 \<longrightarrow>
       (\<exists>a. fst (post_refresh_token c secret now d) =
          \<lparr>status = 200, body = Access_token_json a, set_cookie = None\<rparr>))"
proof (intro conjI impI)
  show "set_cookie (fst (post_refresh_token c secret now d)) = None"
    by (simp add: post_refresh_token_def res_json_def split: option.splits sum.splits)
  show "snd (post_refresh_token c secret now d) = d"
    by (simp add: post_refresh_token_def split: option.splits sum.splits)
next
  assume "status (fst (post_refresh_token c secret now d)) = 200"
  from refresh_success_shape [OF this]
  show "\<exists>a. fst (post_refresh_token c secret now d) =
          \<lparr>status = 200, body = Access_token_json a, set_cookie = None\<rparr>"
    by force
qed

text \<open>
  A successful refresh with the first user's refresh token.
\<close>

theorem refresh_sets_no_cookie_witness:
  "status (fst (post_refresh_token (Some (Jwt alice_refresh_token)) ''k'' 2000 store1)) = 200
   \<and> (\<exists>a. fst (post_refresh_token (Some (Jwt alice_refresh_token)) ''k'' 2000 store1) =
          \<lparr>status = 200, body = Access_token_json a, set_cookie = None\<rparr>)
   \<and> snd (post_refresh_token (Some (Jwt alice_refresh_token)) ''k'' 2000 store1) = store1"
proof -
  have h: "status (fst (post_refresh_token (Some (Jwt alice_refresh_token)) ''k'' 2000 store1)) = 200"
    by (simp add: post_refresh_token_def jwt_verify_def check_exp_def jwt_sign_def
        alice_refresh_token_def res_json_def)
  note t = refresh_sets_no_cookie [where c = "Some (Jwt alice_refresh_token)"
      and secret = "''k''" and now = 2000 and d = store1]
  from h t [THEN conjunct2, THEN conjunct2, THEN mp, OF h] t [THEN conjunct2, THEN conjunct1]
  show ?thesis by (intro conjI)
qed

text \<open>
  C10. The payload of every token that login and refresh issue has the properties
  \<open>email\<close>, \<open>iat\<close> and \<open>exp\<close> and no other (a refresh omits \<open>email\<close> when the presented
  token had none): no \<open>id\<close> property is in any of them. The review handler, for its
  part, stores \<open>req.user.id\<close> as the \<open>user_id\<close> of the row it inserts.
\<close>

theorem tokens_carry_email_only:
  "(status (fst (post_login b secret now d)) = 200 \<longrightarrow>
      (\<exists>a r opts.
         body (fst (post_login b secret now d)) = Access_token_json a
         \<and> set_cookie (fst (post_login b secret now d)) = Some (''refreshToken'', r, opts)
         \<and> map fst (claims a) = [''email'', ''iat'', ''exp'']
         \<and> map fst (claims r) = [''email'', ''iat'', ''exp'']
         \<and> map_of (claims a) ''id'' = None \<and> map_of (claims r) ''id'' = None))
   \<and> (status (fst (post_refresh_token c secret now d)) = 200 \<longrightarrow>
      (\<exists>a. body (fst (post_refresh_token c secret now d)) = Access_token_json a
         \<and> set (map fst (claims a)) \<subseteq> {''email'', ''iat'', ''exp''}
         \<and> map_of (claims a) ''id'' = None))
   \<and> (status (fst (post_books_id_reviews bookId uid rb now d)) = 201 \<longrightarrow>
      (\<exists>row. reviews (snd (post_books_id_reviews bookId uid rb now d)) = reviews d @ [row]
         \<and> r_user_id row = to_sql uid))"
proof -
  have login: "\<exists>a r opts.
         body (fst (post_login b secret now d)) = Access_token_json a
         \<and> set_cookie (fst (post_login b secret now d)) = Some (''refreshToken'', r, opts)
         \<and> map fst (claims a) = [''email'', ''iat'', ''exp'']
         \<and> map fst (claims r) = [''email'', ''iat'', ''exp'']
         \<and> map_of (claims a) ''id'' = None \<and> map_of (claims r) ''id'' = None"
    if ok: "status (fst (post_login b secret now d)) = 200"
    using login_success_shape [OF ok] by auto
  have refresh: "\<exists>a. body (fst (post_refresh_token c secret now d)) = Access_token_json a
         \<and> set (map fst (claims a)) \<subseteq> {''email'', ''iat'', ''exp''}
         \<and> map_of (claims a) ''id'' = None"
    if ok: "status (fst (post_refresh_token c secret now d)) = 200"
    using refresh_success_shape [OF ok] by (auto simp: stringify_email split: option.splits)
  have review: "\<exists>row. reviews (snd (post_books_id_reviews bookId uid rb now d)) = reviews d @ [row]
         \<and> r_user_id row = to_sql uid"
    if ok: "status (fst (post_books_id_reviews bookId uid rb now d)) = 201"
    using post_reviews_shape [of bookId uid rb now d] ok by auto
  show ?thesis
    apply (intro conjI)
      apply (rule impI, erule login)
     apply (rule impI, erule refresh)
    apply (rule impI, erule review)
    done
qed

text \<open>
  The first user's login and refresh; and a review posted with an identity that has no
  \<open>id\<close> property, which is stored with a NULL \<open>user_id\<close>.
\<close>

theorem tokens_carry_email_only_witness:
  "status (fst (post_login \<lparr>email = Val ''a@x.com'', password = Val ''p1''\<rparr> ''k'' 1000 store1)) = 200
   \<and> (\<exists>a r opts.
         body (fst (post_login \<lparr>email = Val ''a@x.com'', password = Val ''p1''\<rparr> ''k'' 1000
            store1)) = Access_token_json a
         \<and> set_cookie (fst (post_login \<lparr>email = Val ''a@x.com'', password = Val ''p1''\<rparr> ''k''
            1000 store1)) = Some (''refreshToken'', r, opts)
         \<and> map fst (claims a) = [''email'', ''iat'', ''exp'']
         \<and> map fst (claims r) = [''email'', ''iat'', ''exp'']
         \<and> map_of (claims a) ''id'' = None \<and> map_of (claims r) ''id'' = None)
   \<and> status (fst (post_refresh_token (Some (Jwt alice_refresh_token)) ''k'' 2000 store1)) = 200
   \<and> (\<exists>a. body (fst (post_refresh_token (Some (Jwt alice_refresh_token)) ''k'' 2000 store1)) =
           Access_token_json a
         \<and> set (map fst (claims a)) \<subseteq> {''email'', ''iat'', ''exp''}
         \<and> map_of (claims a) ''id'' = None)
   \<and> status (fst (post_books_id_reviews (Int_id 1) Undefined \<lparr>rating = Val 5, comment = Undefined\<rparr>
         500 store1)) = 201
   \<and> (\<exists>row. reviews (snd (post_books_id_reviews (Int_id 1) Undefined
           \<lparr>rating = Val 5, comment = Undefined\<rparr> 500 store1)) = reviews store1 @ [row]
         \<and> r_user_id row = None)"
proof -
  let ?b = "\<lparr>email = Val ''a@x.com'', password = Val ''p1''\<rparr>"
  let ?rb = "\<lparr>rating = Val 5, comment = Undefined\<rparr>"
  note t = tokens_carry_email_only [where b = ?b and secret = "''k''" and d = store1
      and c = "Some (Jwt alice_refresh_token)" and bookId = "Int_id 1" and uid = Undefined
      and rb = ?rb]
  have h1: "status (fst (post_login ?b ''k'' 1000 store1)) = 200"
    by (simp add: post_login_def select_users_where_email_def store1_def alice_def bob_def
        bcrypt_compare_def jwt_sign_def)
  have h2: "status (fst (post_refresh_token (Some (Jwt alice_refresh_token)) ''k'' 2000 store1)) = 200"
    by (simp add: post_refresh_token_def jwt_verify_def check_exp_def jwt_sign_def
        alice_refresh_token_def res_json_def)
  have h3: "status (fst (post_books_id_reviews (Int_id 1) Undefined ?rb 500 store1)) = 201"
    by (simp add: post_books_id_reviews_def select_books_where_id_def
        select_reviews_where_book_user_def insert_into_reviews_def store1_def
        alice_def bob_def gatsby_def Let_def res_json_def)
  from t [where now = 500, THEN conjunct2, THEN conjunct2, THEN mp, OF h3]
  have r3: "\<exists>row. reviews (snd (post_books_id_reviews (Int_id 1) Undefined ?rb 500 store1)) =
      reviews store1 @ [row] \<and> r_user_id row = None"
    by simp
  from h1 t [where now = 1000, THEN conjunct1, THEN mp, OF h1]
    h2 t [where now = 2000, THEN conjunct2, THEN conjunct1, THEN mp, OF h2] h3 r3
  show ?thesis by (intro conjI)
qed

text \<open>
  C8, as stated, fails: the handlers of \<open>routes/auth.js\<close> do not validate their input.
  POST \<open>/auth/signup\<close> with an email and no password, on the empty store, answers 500:
  \<open>bcrypt.hash\<close> rejects the missing password and the \<open>catch\<close> block answers.
\<close>

theorem signup_missing_password_counterexample:
  "status (fst (post_signup \<lparr>email = Val ''a@x.com'', password = Undefined\<rparr> ''salt-a'' 100
      empty_store)) = 500
   \<and> status (fst (post_signup \<lparr>email = Val ''a@x.com'', password = Undefined\<rparr> ''salt-a'' 100
      empty_store)) \<noteq> 400"
  by (simp add: post_signup_def select_users_where_email_def empty_store_def bcrypt_hash_def
      internal_server_error_def res_json_def)

text \<open>
  C8, amended. With missing input, the step that fails first decides the status. POST
  \<open>/auth/signup\<close> with a missing (or null) password and an email that no row has answers
  500 and leaves the store as it was; with a missing (or null) email it answers 500 and
  inserts no user (the hash or, with a password, the INSERT of a NULL email fails). With
  a missing password and a stored email, signup answers 400 for the taken email and
  login answers 500 (\<open>bcrypt.compare\<close> rejects the missing password). POST \<open>/auth/login\<close>
  with a missing email answers 400 (\<open>Invalid email\<close>), and POST \<open>/auth/refresh-token\<close>
  without a cookie answers 401.
\<close>

theorem auth_input_is_not_validated:
  "((password b = Undefined \<or> password b = Null)
      \<and> select_users_where_email (to_sql (email b)) d = [] \<longrightarrow>
      post_signup b salt now d = (res_json 500 (Error_json ''Internal server error''), d))
   \<and> (email b = Undefined \<or> email b = Null \<longrightarrow>
      fst (post_signup b salt now d) = res_json 500 (Error_json ''Internal server error'')
      \<and> users (snd (post_signup b salt now d)) = users d
      \<and> post_login b secret now d = (res_json 400 (Error_json ''Invalid email''), d))
   \<and> ((password b = Undefined \<or> password b = Null)
      \<and> select_users_where_email (to_sql (email b)) d \<noteq> [] \<longrightarrow>
      post_signup b salt now d = (res_json 400 (Error_json ''Email already exists''), d)
      \<and> post_login b secret now d = (res_json 500 (Error_json ''Internal server error''), d))
   \<and> post_refresh_token None secret now d = (res_json 401 (Error_json ''No refresh token''), d)"
proof -
  have a: "post_signup b salt now d = (res_json 500 (Error_json ''Internal server error''), d)"
    if "password b = Undefined \<or> password b = Null"
      "select_users_where_email (to_sql (email b)) d = []"
    using that by (auto simp: post_signup_def bcrypt_hash_def internal_server_error_def)
  have b: "fst (post_signup b salt now d) = res_json 500 (Error_json ''Internal server error'')
      \<and> users (snd (post_signup b salt now d)) = users d
      \<and> post_login b secret now d = (res_json 400 (Error_json ''Invalid email''), d)"
    if "email b = Undefined \<or> email b = Null"
  proof -
    from that have n: "to_sql (email b) = None" by auto
    show ?thesis
      by (cases "password b")
        (simp_all add: post_signup_def post_login_def select_users_where_email_def n
          bcrypt_hash_def insert_into_users_def internal_server_error_def)
  qed
  have c: "post_signup b salt now d = (res_json 400 (Error_json ''Email already exists''), d)
      \<and> post_login b secret now d = (res_json 500 (Error_json ''Internal server error''), d)"
    if "password b = Undefined \<or> password b = Null"
      "select_users_where_email (to_sql (email b)) d \<noteq> []"
  proof -
    from that(2) obtain user rest where
      "select_users_where_email (to_sql (email b)) d = user # rest"
      by (cases "select_users_where_email (to_sql (email b)) d") auto
    with that(1) show ?thesis
      by (auto simp: post_signup_def post_login_def bcrypt_compare_def
          internal_server_error_def)
  qed
  have r: "post_refresh_token None secret now d =
      (res_json 401 (Error_json ''No refresh token''), d)"
    by (simp add: post_refresh_token_def)
  show ?thesis
    apply (intro conjI)
       apply (rule impI, elim conjE, erule (1) a)
      apply (rule impI, erule b)
     apply (rule impI, elim conjE, erule (1) c)
    apply (rule r)
    done
qed

text \<open>
  On the concrete store: a signup without password, a signup and a login without email,
  and a login of the first user without password.
\<close>

theorem auth_input_is_not_validated_witness:
  "post_signup \<lparr>email = Val ''c@x.com'', password = Undefined\<rparr> ''salt-c'' 500 store1 =
     (res_json 500 (Error_json ''Internal server error''), store1)
   \<and> fst (post_signup \<lparr>email = Undefined, password = Val ''p3''\<rparr> ''salt-c'' 500 store1) =
       res_json 500 (Error_json ''Internal server error'')
   \<and> users (snd (post_signup \<lparr>email = Undefined, password = Val ''p3''\<rparr> ''salt-c'' 500 store1)) =
       users store1
   \<and> post_login \<lparr>email = Undefined, password = Val ''p3''\<rparr> ''k'' 500 store1 =
       (res_json 400 (Error_json ''Invalid email''), store1)
   \<and> post_login \<lparr>email = Val ''a@x.com'', password = Undefined\<rparr> ''k'' 500 store1 =
       (res_json 500 (Error_json ''Internal server error''), store1)"
proof -
  let ?nopw = "\<lparr>email = Val ''c@x.com'', password = Undefined\<rparr>"
  let ?noemail = "\<lparr>email = Undefined, password = Val ''p3''\<rparr>"
  let ?known = "\<lparr>email = Val ''a@x.com'', password = Undefined\<rparr>"
  have h1: "(password ?nopw = Undefined \<or> password ?nopw = Null)
      \<and> select_users_where_email (to_sql (email ?nopw)) store1 = []"
    by (simp add: select_users_where_email_def store1_def alice_def bob_def)
  have h2: "email ?noemail = Undefined \<or> email ?noemail = Null" by simp
  have h3: "(password ?known = Undefined \<or> password ?known = Null)
      \<and> select_users_where_email (to_sql (email ?known)) store1 \<noteq> []"
    by (simp add: select_users_where_email_def store1_def alice_def bob_def)
  note a = auth_input_is_not_validated [where b = ?nopw and d = store1 and salt = "''salt-c''"
      and now = 500, THEN conjunct1, THEN mp, OF h1]
  note b = auth_input_is_not_validated [where b = ?noemail and d = store1
      and salt = "''salt-c''" and now = 500 and secret = "''k''",
      THEN conjunct2, THEN conjunct1, THEN mp, OF h2]
  note c = auth_input_is_not_validated [where b = ?known and d = store1
      and salt = "''salt-c''" and now = 500 and secret = "''k''",
      THEN conjunct2, THEN conjunct2, THEN conjunct1, THEN mp, OF h3, THEN conjunct2]
  from a b c show ?thesis by (intro conjI) (elim conjE | assumption)+
qed

text \<open>
  C5, as stated, fails in two ways. A requester whose \<open>req.user.id\<close> is undefined is
  never refused: \<open>user_id = NULL\<close> selects no row, so two of its requests for the same
  book, served one after the other, are both answered 201 and leave two rows with the
  same \<open>book_id\<close> and a NULL \<open>user_id\<close>. And two requests of the second user for the
  same book that overlap, both having passed their two SELECTs on the same store before
  either INSERT runs, both insert: two rows for the pair (1, 2).
\<close>

theorem one_review_per_pair_counterexample:
  "status (fst (post_books_id_reviews (Int_id 1) Undefined \<lparr>rating = Val 5, comment = Undefined\<rparr>
       501
       (snd (post_books_id_reviews (Int_id 1) Undefined \<lparr>rating = Val 5, comment = Undefined\<rparr>
          500 store1)))) = 201
   \<and> length (rows_for_pair (Some 1) None
        (reviews (serial_run ''k''
          [(500, Add_review (Int_id 1) Undefined \<lparr>rating = Val 5, comment = Undefined\<rparr>),
           (501, Add_review (Int_id 1) Undefined \<lparr>rating = Val 5, comment = Undefined\<rparr>)]
          store1))) = 2
   \<and> post_review_step (Int_id 1) (Val 2) \<lparr>rating = Val 5, comment = Undefined\<rparr> 500
        Await_book_check store1 = (Await_existing_review, store1)
   \<and> post_review_step (Int_id 1) (Val 2) \<lparr>rating = Val 5, comment = Undefined\<rparr> 500
        Await_existing_review store1 = (Await_insert, store1)
   \<and> fst (post_review_step (Int_id 1) (Val 2) \<lparr>rating = Val 5, comment = Undefined\<rparr> 501
        Await_insert
        (snd (post_review_step (Int_id 1) (Val 2) \<lparr>rating = Val 5, comment = Undefined\<rparr> 500
           Await_insert store1))) =
       Responded (res_json 201 (Review_json
         \<lparr>r_id = 3, r_book_id = Some 1, r_user_id = Some 2, r_rating = Some 5,
          r_comment = None, r_created_at = 501\<rparr>))
   \<and> length (rows_for_pair (Some 1) (Some 2)
        (reviews (snd (post_review_step (Int_id 1) (Val 2)
           \<lparr>rating = Val 5, comment = Undefined\<rparr> 501 Await_insert
           (snd (post_review_step (Int_id 1) (Val 2) \<lparr>rating = Val 5, comment = Undefined\<rparr> 500
              Await_insert store1)))))) = 2"
  by (simp add: post_books_id_reviews_def post_review_step_def select_books_where_id_def
      select_reviews_where_book_user_def insert_into_reviews_def rows_for_pair_def
      store1_def alice_def bob_def gatsby_def alice_review_def or_null_def rows0_def
      res_json_def Let_def)

text \<open>
  C5, amended. With requests served one at a time: POST \<open>/books/:id/reviews\<close> for a
  book of the store, by a requester whose \<open>req.user.id\<close> is \<open>u\<close> and who has a review of
  that book already, answers 400 and leaves the store as it was; every request keeps
  the invariant that at most one row of the reviews table has a given book id and a
  given user id, and, when its requester has an id, also the invariant that at most one
  row has a given pair of \<open>book_id\<close> and \<open>user_id\<close> values, NULL included. Both
  invariants hold along serial runs from the empty store, the second along runs of
  requests whose requesters have ids. (Served alone, the three steps of
  \<open>post_review_step\<close> are \<open>post_books_id_reviews\<close>: \<open>post_review_steps_served_alone\<close>.)
\<close>

theorem one_review_per_book_and_user:
  "(uid = Val u \<and> rows_for_pair (Some b) (Some u) (reviews d) \<noteq> []
      \<and> b \<in> set (map b_id (books d)) \<longrightarrow>
      status (fst (post_books_id_reviews (Int_id b) uid rb now d)) = 400
      \<and> snd (post_books_id_reviews (Int_id b) uid rb now d) = d)
   \<and> ((\<forall>i j. length (rows_for_pair (Some i) (Some j) (reviews d)) \<le> 1) \<longrightarrow>
      (\<forall>i j. length (rows_for_pair (Some i) (Some j)
                (reviews (serve_alone secret now req d))) \<le> 1))
   \<and> ((\<forall>p q. length (rows_for_pair p q (reviews d)) \<le> 1) \<and> identified req \<longrightarrow>
      (\<forall>p q. length (rows_for_pair p q (reviews (serve_alone secret now req d))) \<le> 1))
   \<and> (\<forall>i j. length (rows_for_pair (Some i) (Some j)
                (reviews (serial_run secret trace empty_store))) \<le> 1)
   \<and> (list_all (\<lambda>(now, req). identified req) trace \<longrightarrow>
      (\<forall>p q. length (rows_for_pair p q (reviews (serial_run secret trace empty_store))) \<le> 1))"
proof -
  have dup: "status (fst (post_books_id_reviews (Int_id b) uid rb now d)) = 400
      \<and> snd (post_books_id_reviews (Int_id b) uid rb now d) = d"
    if h: "uid = Val u \<and> rows_for_pair (Some b) (Some u) (reviews d) \<noteq> []
      \<and> b \<in> set (map b_id (books d))"
  proof -
    from h obtain r rs where r: "rows_for_pair (Some b) (Some u) (reviews d) = r # rs"
      by (cases "rows_for_pair (Some b) (Some u) (reviews d)") auto
    from h have "filter (\<lambda>x. b_id x = b) (books d) \<noteq> []"
      by (auto simp: filter_empty_conv)
    then obtain bk bks where bk: "filter (\<lambda>x. b_id x = b) (books d) = bk # bks"
      by (cases "filter (\<lambda>x. b_id x = b) (books d)") auto
    from h r bk show ?thesis
      by (simp add: post_books_id_reviews_def select_books_where_id_def
          select_reviews_where_book_user_def rows_for_pair_def res_json_def)
  qed
  have ids: "\<forall>i j. length (rows_for_pair (Some i) (Some j)
                (reviews (serve_alone secret now req d))) \<le> 1"
    if "\<forall>i j. length (rows_for_pair (Some i) (Some j) (reviews d)) \<le> 1"
    using that by (blast intro: pair_step)
  have all: "\<forall>p q. length (rows_for_pair p q (reviews (serve_alone secret now req d))) \<le> 1"
    if "(\<forall>p q. length (rows_for_pair p q (reviews d)) \<le> 1) \<and> identified req"
    using that by (blast intro: pair_step)
  have empty: "\<forall>p q. length (rows_for_pair p q (reviews empty_store)) \<le> 1"
    by (simp add: empty_store_def rows_for_pair_def)
  then have "\<forall>i j. length (rows_for_pair (Some i) (Some j) (reviews empty_store)) \<le> 1"
    by blast
  then have run_ids: "\<forall>i j. length (rows_for_pair (Some i) (Some j)
                (reviews (serial_run secret trace empty_store))) \<le> 1"
    by (rule id_pairs_run)
  have run_all: "\<forall>p q. length (rows_for_pair p q
      (reviews (serial_run secret trace empty_store))) \<le> 1"
    if "list_all (\<lambda>(now, req). identified req) trace"
    using empty that by (rule all_pairs_run)
  show ?thesis
    apply (intro conjI)
        apply (rule impI, erule dup)
       apply (rule impI, erule ids)
      apply (rule impI, erule all)
     apply (rule run_ids)
    apply (rule impI, erule run_all)
    done
qed

text \<open>
  The first user reviews the book a second time and is refused; the second user's first
  review of it is added; and a serial run from the empty store in which the first user
  signs up, adds the book and posts two reviews of it.
\<close>

theorem one_review_per_book_and_user_witness:
  "rows_for_pair (Some 1) (Some 1) (reviews store1) = [alice_review]
   \<and> status (fst (post_books_id_reviews (Int_id 1) (Val 1)
        \<lparr>rating = Val 5, comment = Val ''again''\<rparr> 500 store1)) = 400
   \<and> snd (post_books_id_reviews (Int_id 1) (Val 1) \<lparr>rating = Val 5, comment = Val ''again''\<rparr>
        500 store1) = store1
   \<and> length (reviews (serve_alone ''k'' 500
        (Add_review (Int_id 1) (Val 2) \<lparr>rating = Val 5, comment = Undefined\<rparr>) store1)) = 2
   \<and> (\<forall>p q. length (rows_for_pair p q (reviews (serve_alone ''k'' 500
        (Add_review (Int_id 1) (Val 2) \<lparr>rating = Val 5, comment = Undefined\<rparr>) store1))) \<le> 1)
   \<and> (\<forall>p q. length (rows_for_pair p q (reviews (serial_run ''k''
        [(100, Signup \<lparr>email = Val ''a@x.com'', password = Val ''p1''\<rparr> ''salt-a''),
         (300, Add_book \<lparr>title = Val ''The Great Gatsby'', author = Val ''F. Scott Fitzgerald'',
                 genre = Val ''Fiction'', description = Undefined\<rparr>),
         (400, Add_review (Int_id 1) (Val 1) \<lparr>rating = Val 4, comment = Val ''good''\<rparr>),
         (500, Add_review (Int_id 1) (Val 1) \<lparr>rating = Val 5, comment = Val ''again''\<rparr>)]
        empty_store))) \<le> 1)"
proof -
  let ?rb = "\<lparr>rating = Val 5, comment = Val ''again''\<rparr>"
  let ?req = "Add_review (Int_id 1) (Val 2) \<lparr>rating = Val 5, comment = Undefined\<rparr>"
  let ?trace = "[(100, Signup \<lparr>email = Val ''a@x.com'', password = Val ''p1''\<rparr> ''salt-a''),
         (300, Add_book \<lparr>title = Val ''The Great Gatsby'', author = Val ''F. Scott Fitzgerald'',
                 genre = Val ''Fiction'', description = Undefined\<rparr>),
         (400, Add_review (Int_id 1) (Val 1) \<lparr>rating = Val 4, comment = Val ''good''\<rparr>),
         (500, Add_review (Int_id 1) (Val 1) \<lparr>rating = Val 5, comment = Val ''again''\<rparr>)]"
  note t = one_review_per_book_and_user [where uid = "Val 1" and u = 1 and b = 1
      and d = store1 and rb = ?rb and now = 500 and secret = "''k''" and req = ?req
      and trace = ?trace]
  have r: "rows_for_pair (Some 1) (Some 1) (reviews store1) = [alice_review]"
    by (simp add: rows_for_pair_def store1_def alice_review_def)
  have h1: "Val 1 = Val (1::int) \<and> rows_for_pair (Some 1) (Some 1) (reviews store1) \<noteq> []
      \<and> 1 \<in> set (map b_id (books store1))"
    by (simp add: r) (simp add: store1_def gatsby_def)
  have h2: "(\<forall>p q. length (rows_for_pair p q (reviews store1)) \<le> 1) \<and> identified ?req"
    by (simp add: rows_for_pair_def store1_def)
  have h3: "list_all (\<lambda>(now, req). identified req) ?trace" by simp
  have n: "length (reviews (serve_alone ''k'' 500 ?req store1)) = 2"
    by (simp add: post_books_id_reviews_def select_books_where_id_def
        select_reviews_where_book_user_def insert_into_reviews_def store1_def
        alice_def bob_def gatsby_def alice_review_def Let_def)
  from r t [THEN conjunct1, THEN mp, OF h1] n
    t [THEN conjunct2, THEN conjunct2, THEN conjunct1, THEN mp, OF h2]
    t [THEN conjunct2, THEN conjunct2, THEN conjunct2, THEN conjunct2, THEN mp, OF h3]
  show ?thesis by (intro conjI) (elim conjE | assumption)+
qed

text \<open>
  C2, as stated, fails for a cookie that is present with an empty value: \<open>!token\<close>
  holds of the empty string, and the handler answers 401, not 403.
\<close>

theorem refresh_empty_cookie_counterexample:
  "post_refresh_token (Some (Not_a_jwt [])) ''k'' 2000 store1 =
     (res_json 401 (Error_json ''No refresh token''), store1)
   \<and> status (fst (post_refresh_token (Some (Not_a_jwt [])) ''k'' 2000 store1)) \<noteq> 403"
  by (simp add: post_refresh_token_def res_json_def)

text \<open>
  C2, amended. POST \<open>/auth/refresh-token\<close>. With a cookie that holds a token signed
  under the secret, carrying no \<open>nbf\<close> claim and an \<open>exp\<close> claim later than the clock (and,
  in general, with any non-empty cookie that \<open>jwt.verify\<close> accepts), the answer is 200
  with a new access token: its \<open>email\<close> claim is that of the presented token, its \<open>iat\<close>
  is the clock, its \<open>exp\<close> is 60 seconds later, and it is signed with the secret. With no
  cookie, and with a cookie whose value is empty, the answer is 401. With any other
  cookie that \<open>jwt.verify\<close> rejects the answer is 403: a non-empty string that is no
  token, a token signed under another key (tampered), a token whose \<open>exp\<close> is not after
  the clock (expired). The store is handed back as it was in each case.
\<close>

theorem refresh_token_statuses:
  "(secret \<noteq> [] \<and> signed_with t = secret \<and> map_of (claims t) ''nbf'' = None
      \<and> map_of (claims t) ''exp'' = Some (CNum e) \<and> now < e \<longrightarrow>
      post_refresh_token (Some (Jwt t)) secret now d =
        (res_json 200 (Access_token_json
           \<lparr>claims = stringify [(''email'', map_of (claims t) ''email'')] @
                       [(''iat'', CNum now), (''exp'', CNum (now + 60))],
            signed_with = secret\<rparr>), d)
      \<and> map_of (stringify [(''email'', map_of (claims t) ''email'')] @
                 [(''iat'', CNum now), (''exp'', CNum (now + 60))]) ''email'' =
          map_of (claims t) ''email'')
   \<and> (tok \<noteq> Not_a_jwt [] \<and> jwt_verify tok secret now = Inr decoded \<longrightarrow>
      post_refresh_token (Some tok) secret now d =
        (res_json 200 (Access_token_json
           \<lparr>claims = stringify [(''email'', map_of decoded ''email'')] @
                       [(''iat'', CNum now), (''exp'', CNum (now + 60))],
            signed_with = secret\<rparr>), d))
   \<and> post_refresh_token None secret now d = (res_json 401 (Error_json ''No refresh token''), d)
   \<and> post_refresh_token (Some (Not_a_jwt [])) secret now d =
        (res_json 401 (Error_json ''No refresh token''), d)
   \<and> (tok \<noteq> Not_a_jwt [] \<and> jwt_verify tok secret now = Inl err \<longrightarrow>
        post_refresh_token (Some tok) secret now d =
          (res_json 403 (Error_json ''Invalid refresh token''), d))
   \<and> (s \<noteq> [] \<longrightarrow>
        post_refresh_token (Some (Not_a_jwt s)) secret now d =
          (res_json 403 (Error_json ''Invalid refresh token''), d))
   \<and> (signed_with t \<noteq> secret \<longrightarrow>
        post_refresh_token (Some (Jwt t)) secret now d =
          (res_json 403 (Error_json ''Invalid refresh token''), d))
   \<and> (map_of (claims t) ''exp'' = Some (CNum e) \<and> e \<le> now \<longrightarrow>
        post_refresh_token (Some (Jwt t)) secret now d =
          (res_json 403 (Error_json ''Invalid refresh token''), d))"
proof -
  have accepted: "post_refresh_token (Some tok) secret now d =
        (res_json 200 (Access_token_json
           \<lparr>claims = stringify [(''email'', map_of decoded ''email'')] @
                       [(''iat'', CNum now), (''exp'', CNum (now + 60))],
            signed_with = secret\<rparr>), d)"
    if "tok \<noteq> Not_a_jwt [] \<and> jwt_verify tok secret now = Inr decoded" for tok decoded
  proof -
    from that have "secret \<noteq> []"
      by (auto simp: jwt_verify_def split: cookie_value.splits if_splits)
    with that show ?thesis
      by (simp add: post_refresh_token_def jwt_sign_def)
  qed
  have ok: "post_refresh_token (Some (Jwt t)) secret now d =
        (res_json 200 (Access_token_json
           \<lparr>claims = stringify [(''email'', map_of (claims t) ''email'')] @
                       [(''iat'', CNum now), (''exp'', CNum (now + 60))],
            signed_with = secret\<rparr>), d)
      \<and> map_of (stringify [(''email'', map_of (claims t) ''email'')] @
                 [(''iat'', CNum now), (''exp'', CNum (now + 60))]) ''email'' =
          map_of (claims t) ''email''"
    if h: "secret \<noteq> [] \<and> signed_with t = secret \<and> map_of (claims t) ''nbf'' = None
      \<and> map_of (claims t) ''exp'' = Some (CNum e) \<and> now < e"
  proof -
    from h have v: "jwt_verify (Jwt t) secret now = Inr (claims t)"
      by (simp add: jwt_verify_def check_exp_def)
    have "Jwt t \<noteq> Not_a_jwt [] \<and> jwt_verify (Jwt t) secret now = Inr (claims t)"
      using v by simp
    from accepted [OF this] show ?thesis
      by (simp only: map_of_issued(1) simp_thms)
  qed
  have none: "post_refresh_token None secret now d =
      (res_json 401 (Error_json ''No refresh token''), d)"
    by (simp add: post_refresh_token_def)
  have empty: "post_refresh_token (Some (Not_a_jwt [])) secret now d =
      (res_json 401 (Error_json ''No refresh token''), d)"
    by (simp add: post_refresh_token_def)
  have refused: "post_refresh_token (Some tok) secret now d =
          (res_json 403 (Error_json ''Invalid refresh token''), d)"
    if "tok \<noteq> Not_a_jwt [] \<and> jwt_verify tok secret now = Inl err" for tok err
    using that by (simp add: post_refresh_token_def)
  have garbage: "post_refresh_token (Some (Not_a_jwt s)) secret now d =
          (res_json 403 (Error_json ''Invalid refresh token''), d)"
    if "s \<noteq> []"
    using that by (simp add: post_refresh_token_def jwt_verify_def)
  have tampered: "post_refresh_token (Some (Jwt t)) secret now d =
          (res_json 403 (Error_json ''Invalid refresh token''), d)"
    if "signed_with t \<noteq> secret"
    using that by (simp add: post_refresh_token_def jwt_verify_def)
  have expired: "post_refresh_token (Some (Jwt t)) secret now d =
          (res_json 403 (Error_json ''Invalid refresh token''), d)"
    if "map_of (claims t) ''exp'' = Some (CNum e) \<and> e \<le> now"
  proof -
    from that have "\<exists>err. jwt_verify (Jwt t) secret now = Inl err"
      by (simp add: jwt_verify_def check_exp_def split: option.splits claim.splits)
    then show ?thesis by (auto simp: post_refresh_token_def)
  qed
  show ?thesis
    apply (intro conjI)
           apply (rule impI, erule ok)
          apply (rule impI, erule accepted)
         apply (rule none)
        apply (rule empty)
       apply (rule impI, erule refused)
      apply (rule impI, erule garbage)
     apply (rule impI, erule tampered)
    apply (rule impI, erule expired)
    done
qed

text \<open>
  The first user's refresh token, presented at time 2000, then under another secret,
  then at the second of its expiry; and a string that is no token.
\<close>

theorem refresh_token_statuses_witness:
  "post_refresh_token (Some (Jwt alice_refresh_token)) ''k'' 2000 store1 =
     (res_json 200 (Access_token_json
        \<lparr>claims = [(''email'', CStr ''a@x.com''), (''iat'', CNum 2000), (''exp'', CNum 2060)],
         signed_with = ''k''\<rparr>), store1)
   \<and> jwt_verify (Jwt alice_refresh_token) ''k'' 2000 = Inr (claims alice_refresh_token)
   \<and> post_refresh_token (Some (Not_a_jwt ''garbage'')) ''k'' 2000 store1 =
       (res_json 403 (Error_json ''Invalid refresh token''), store1)
   \<and> post_refresh_token (Some (Jwt alice_refresh_token)) ''another secret'' 2000 store1 =
       (res_json 403 (Error_json ''Invalid refresh token''), store1)
   \<and> post_refresh_token (Some (Jwt alice_refresh_token)) ''k'' 605800 store1 =
       (res_json 403 (Error_json ''Invalid refresh token''), store1)"
proof -
  note valid = refresh_token_statuses [where secret = "''k''" and t = alice_refresh_token
      and e = 605800 and now = 2000 and d = store1 and s = "''garbage''"
      and tok = "Jwt alice_refresh_token" and decoded = "claims alice_refresh_token"]
  note forged = refresh_token_statuses [where secret = "''another secret''"
      and t = alice_refresh_token and e = 605800 and now = 2000 and d = store1
      and tok = "Jwt alice_refresh_token" and err = Invalid_signature]
  note late = refresh_token_statuses [where secret = "''k''" and t = alice_refresh_token
      and e = 605800 and now = 605800 and d = store1]
  have v: "jwt_verify (Jwt alice_refresh_token) ''k'' 2000 = Inr (claims alice_refresh_token)"
    by (simp add: jwt_verify_def check_exp_def alice_refresh_token_def)
  have a: "post_refresh_token (Some (Jwt alice_refresh_token)) ''k'' 2000 store1 =
     (res_json 200 (Access_token_json
        \<lparr>claims = [(''email'', CStr ''a@x.com''), (''iat'', CNum 2000), (''exp'', CNum 2060)],
         signed_with = ''k''\<rparr>), store1)"
    using valid [THEN conjunct1] by (simp add: alice_refresh_token_def stringify_email)
  have b: "post_refresh_token (Some (Not_a_jwt ''garbage'')) ''k'' 2000 store1 =
       (res_json 403 (Error_json ''Invalid refresh token''), store1)"
    using valid [THEN conjunct2, THEN conjunct2, THEN conjunct2, THEN conjunct2,
        THEN conjunct2, THEN conjunct1] by simp
  have fv: "jwt_verify (Jwt alice_refresh_token) ''another secret'' 2000 = Inl Invalid_signature"
    by (simp add: jwt_verify_def alice_refresh_token_def)
  have c: "post_refresh_token (Some (Jwt alice_refresh_token)) ''another secret'' 2000 store1 =
       (res_json 403 (Error_json ''Invalid refresh token''), store1)"
    using forged [THEN conjunct2, THEN conjunct2, THEN conjunct2, THEN conjunct2,
        THEN conjunct1] fv by simp
  have d: "post_refresh_token (Some (Jwt alice_refresh_token)) ''k'' 605800 store1 =
       (res_json 403 (Error_json ''Invalid refresh token''), store1)"
    using late [THEN conjunct2, THEN conjunct2, THEN conjunct2, THEN conjunct2,
        THEN conjunct2, THEN conjunct2, THEN conjunct2]
    by (simp add: alice_refresh_token_def)
  from a v b c d show ?thesis by (intro conjI)
qed




end
